theory Spec2Isabelle
  imports Complex_Main "HOL-Library.Word"
begin

section \<open>Shared vocabulary\<close>

text \<open>
  The service is a set of Express handlers over two Mongoose models. Each handler is
  modelled as a pure function of the request, the process environment, the clock and
  the collections it touches; every \<^verbatim>\<open>next(err)\<close> is a value of a sum type.
  JavaScript numbers are idealised: integers are \<open>int\<close>, other numbers are \<open>real\<close>.
\<close>

text \<open>\<^verbatim>\<open>role: 'user' | 'admin'\<close>, the closed type of the schema and of the request identity.\<close>

datatype role = RoleUser | RoleAdmin

text \<open>A \<^verbatim>\<open>mongoose.Types.ObjectId\<close>; \<open>oid_toString\<close> is its \<^verbatim>\<open>toString()\<close>.\<close>

datatype object_id = Oid string

fun oid_toString :: "object_id \<Rightarrow> string" where
  "oid_toString (Oid s) = s"

definition is_hex_char :: "char \<Rightarrow> bool" where
  "is_hex_char c \<longleftrightarrow> c \<in> set ''0123456789abcdefABCDEF''"

definition lower_hex :: "char \<Rightarrow> char" where
  "lower_hex c =
     (if c = CHR ''A'' then CHR ''a'' else if c = CHR ''B'' then CHR ''b''
      else if c = CHR ''C'' then CHR ''c'' else if c = CHR ''D'' then CHR ''d''
      else if c = CHR ''E'' then CHR ''e'' else if c = CHR ''F'' then CHR ''f'' else c)"

text \<open>
  Casting a string to an ObjectId, as Mongoose does for \<^verbatim>\<open>findById\<close> arguments and
  for ObjectId paths of a filter or an update: 24 hexadecimal characters are accepted,
  anything else raises a CastError (\<open>None\<close>).
\<close>

definition castObjectId :: "string \<Rightarrow> object_id option" where
  "castObjectId s =
     (if length s = 24 \<and> list_all is_hex_char s then Some (Oid (map lower_hex s)) else None)"

text \<open>The part of \<^verbatim>\<open>process.env\<close> the code reads.\<close>

record env =
  NODE_ENV :: "string option"
  JWT_SECRET :: "string option"
  JWT_EXPIRE :: "int option"

text \<open>
  \<open>JWT_EXPIRE\<close> holds the number of seconds the configured time span denotes (the
  span string itself is parsed inside the token library). A string of the environment
  is falsy when it is unset or empty.
\<close>

definition truthy :: "string option \<Rightarrow> bool" where
  "truthy v = (case v of None \<Rightarrow> False | Some s \<Rightarrow> s \<noteq> [])"

section \<open>The User model\<close>

record user =
  u_id :: object_id
  u_name :: string
  u_email :: string
  u_password :: string
  u_role :: role
  resetPasswordToken :: "string option"
  resetPasswordExpire :: "int option"

subsection \<open>Reset tokens\<close>

text \<open>\<^verbatim>\<open>Buffer.toString('hex')\<close>: two lower-case hexadecimal digits for each byte.\<close>

definition hex_digit :: "nat \<Rightarrow> char" where
  "hex_digit n = ''0123456789abcdef'' ! n"

definition hex_byte :: "8 word \<Rightarrow> string" where
  "hex_byte b = [hex_digit (unat b div 16), hex_digit (unat b mod 16)]"

definition toString_hex :: "8 word list \<Rightarrow> string" where
  "toString_hex bs = concat (map hex_byte bs)"

text \<open>
  \<^verbatim>\<open>getResetPasswordToken\<close>. The random source \<^verbatim>\<open>crypto.randomBytes\<close> (from a
  length to that many bytes), the SHA-256 digest as a hexadecimal string and the value
  of \<^verbatim>\<open>Date.now()\<close> (milliseconds) are inputs. The method returns the plaintext token
  and leaves the updated document to the caller.
\<close>

definition getResetPasswordToken ::
  "(string \<Rightarrow> string) \<Rightarrow> (nat \<Rightarrow> 8 word list) \<Rightarrow> int \<Rightarrow> user \<Rightarrow> string \<times> user" where
  "getResetPasswordToken sha256 randomBytes now this =
     (let resetToken = toString_hex (randomBytes 20)
      in (resetToken,
          this\<lparr>resetPasswordToken := Some (sha256 resetToken),
               resetPasswordExpire := Some (now + 10 * 60 * 1000)\<rparr>))"

subsection \<open>JSON web tokens\<close>

text \<open>
  The token library is outside the repository. Its model: a token is a payload and a
  signature, the signature is the keyed digest \<open>hmac\<close> of the payload, and the compact
  text form is produced by \<open>serialise\<close> and read back by \<open>parse\<close>. The id of a
  payload is an ObjectId, as \<^verbatim>\<open>getSignedJwtToken\<close> puts it there, so that looking the
  user up raises no cast error.
\<close>

record jwt_payload =
  jp_id :: object_id
  jp_iat :: int
  jp_exp :: int

record signed_jwt =
  jwt_body :: jwt_payload
  jwt_signature :: string

record jwt_lib =
  hmac :: "string \<Rightarrow> jwt_payload \<Rightarrow> string"
  serialise :: "signed_jwt \<Rightarrow> string"
  parse :: "string \<Rightarrow> signed_jwt option"

datatype jwt_error = JsonWebTokenError | TokenExpiredError

text \<open>\<^verbatim>\<open>jwt.sign(payload, secret, {expiresIn})\<close> at clock \<open>now\<close> (seconds).\<close>

definition issue :: "jwt_lib \<Rightarrow> object_id \<Rightarrow> string \<Rightarrow> int \<Rightarrow> int \<Rightarrow> signed_jwt" where
  "issue lib ident secret expiresIn now =
     (let p = \<lparr>jp_id = ident, jp_iat = now, jp_exp = now + expiresIn\<rparr>
      in \<lparr>jwt_body = p, jwt_signature = hmac lib secret p\<rparr>)"

definition jwt_sign :: "jwt_lib \<Rightarrow> object_id \<Rightarrow> string \<Rightarrow> int \<Rightarrow> int \<Rightarrow> string" where
  "jwt_sign lib ident secret expiresIn now = serialise lib (issue lib ident secret expiresIn now)"

text \<open>
  \<^verbatim>\<open>jwt.verify(token, secret)\<close>: a missing, empty or unreadable token and a wrong
  signature raise JsonWebTokenError; a token whose expiry is not after the clock raises
  TokenExpiredError.
\<close>

definition jwt_verify :: "jwt_lib \<Rightarrow> string option \<Rightarrow> string \<Rightarrow> int \<Rightarrow> jwt_error + jwt_payload" where
  "jwt_verify lib token secret now =
     (if \<not> truthy token then Inl JsonWebTokenError
      else
        (case parse lib (the token) of
           None \<Rightarrow> Inl JsonWebTokenError
         | Some j \<Rightarrow>
             if jwt_signature j \<noteq> hmac lib secret (jwt_body j) then Inl JsonWebTokenError
             else if jp_exp (jwt_body j) \<le> now then Inl TokenExpiredError
             else Inr (jwt_body j)))"

text \<open>
  \<^verbatim>\<open>getSignedJwtToken\<close>: the secret falls back to a fixed string, the life time to
  thirty days.
\<close>

definition getSignedJwtToken :: "jwt_lib \<Rightarrow> env \<Rightarrow> int \<Rightarrow> user \<Rightarrow> string" where
  "getSignedJwtToken lib e now this =
     jwt_sign lib (u_id this)
       (if truthy (JWT_SECRET e) then the (JWT_SECRET e) else ''your_jwt_secret'')
       (case JWT_EXPIRE e of Some d \<Rightarrow> d | None \<Rightarrow> 30 * 24 * 60 * 60)
       now"

section \<open>The auth middleware\<close>

text \<open>
  What a handler can raise or forward: an \<^verbatim>\<open>ErrorResponse(message, statusCode)\<close> of
  the repository, and the errors of the runtime, of Mongoose and of the database driver
  that the handlers' \<^verbatim>\<open>catch\<close> blocks forward unchanged.
\<close>

datatype raised =
    ErrorResponse string int
  | CastError string string
  | ValidationError "(string \<times> string) list"
  | TypeError string
  | MongoServerError int "(string \<times> string) list" string

text \<open>The identity \<^verbatim>\<open>req.user\<close>.\<close>

record identity =
  id_id :: string
  id_role :: role
  id_name :: string
  id_email :: string

text \<open>A call of \<^verbatim>\<open>next\<close>: the chain continues, or an error is forwarded.\<close>

datatype next_call = Continue | Forward raised

text \<open>\<^verbatim>\<open>String.prototype.split(' ')\<close> and \<^verbatim>\<open>startsWith\<close>.\<close>

fun split_on :: "char \<Rightarrow> string \<Rightarrow> string \<Rightarrow> string list" where
  "split_on sep acc [] = [rev acc]"
| "split_on sep acc (c # cs) =
     (if c = sep then rev acc # split_on sep [] cs else split_on sep (c # acc) cs)"

definition split :: "char \<Rightarrow> string \<Rightarrow> string list" where
  "split sep s = split_on sep [] s"

definition startsWith :: "string \<Rightarrow> string \<Rightarrow> bool" where
  "startsWith s p \<longleftrightarrow> take (length p) s = p"

definition nth_opt :: "'a list \<Rightarrow> nat \<Rightarrow> 'a option" where
  "nth_opt xs i = (if i < length xs then Some (xs ! i) else None)"

text \<open>
  \<^verbatim>\<open>User.findById(id).select('-password')\<close>: the document with that id, without its
  password.
\<close>

record user_view =
  uv_id :: object_id
  uv_name :: string
  uv_email :: string
  uv_role :: role

definition select_no_password :: "user \<Rightarrow> user_view" where
  "select_no_password u =
     \<lparr>uv_id = u_id u, uv_name = u_name u, uv_email = u_email u, uv_role = u_role u\<rparr>"

definition User_findById :: "user list \<Rightarrow> object_id \<Rightarrow> user option" where
  "User_findById users i = find (\<lambda>u. u_id u = i) users"

text \<open>
  \<^verbatim>\<open>protect\<close>. The result is the identity attached to the request, if any, and the
  calls of \<^verbatim>\<open>next\<close> in order. \<open>authorization\<close> is the header, \<open>None\<close> when absent.
\<close>

definition protect ::
  "jwt_lib \<Rightarrow> env \<Rightarrow> user list \<Rightarrow> int \<Rightarrow> string option \<Rightarrow> identity option \<times> next_call list" where
  "protect lib e users now authorization =
     (if (case authorization of None \<Rightarrow> False | Some h \<Rightarrow> startsWith h ''Bearer'') then
        (let token = nth_opt (split CHR '' '' (the authorization)) 1 in
         if \<not> truthy (JWT_SECRET e) then
           (None, [Forward (ErrorResponse ''Not authorized, token failed'' 401)])
         else
           (case jwt_verify lib token (the (JWT_SECRET e)) now of
              Inl err \<Rightarrow>
                (None, [Forward (ErrorResponse ''Not authorized, token failed'' 401)])
            | Inr decoded \<Rightarrow>
                (case map_option select_no_password (User_findById users (jp_id decoded)) of
                   None \<Rightarrow> (None, [Forward (ErrorResponse ''User not found'' 404)])
                 | Some u \<Rightarrow>
                     (Some \<lparr>id_id = oid_toString (uv_id u), id_role = uv_role u,
                            id_name = uv_name u, id_email = uv_email u\<rparr>,
                      Continue #
                      (if \<not> truthy token
                       then [Forward (ErrorResponse ''Not authorized, no token'' 401)]
                       else [])))))
      else (None, [Forward (ErrorResponse ''Not authorized, no token'' 401)]))"

section \<open>The error-normalisation middleware\<close>

text \<open>
  The value \<^verbatim>\<open>err: unknown\<close> that reaches the handler: something that is not an object
  (all its properties read as undefined), or an object with the properties the handler
  reads. \<open>e_class\<close> answers the \<^verbatim>\<open>instanceof\<close> tests; a property that is absent or
  undefined is \<open>None\<close>; \<open>e_code\<close> is the numeric \<^verbatim>\<open>code\<close>, if the object has one;
  \<open>e_errors\<close> and \<open>e_details\<close> hold the messages of \<^verbatim>\<open>err.errors\<close> and
  \<^verbatim>\<open>err.details\<close> in order.
\<close>

datatype err_class = MongooseCastError | MongooseValidationError | JoiValidationError | OtherClass

datatype status_prop = StatusAbsent | StatusNumber int | StatusOther

record js_error =
  e_class :: err_class
  e_name :: "string option"
  e_message :: "string option"
  e_statusCode :: status_prop
  e_status :: "string option"
  e_isOperational :: "bool option"
  e_code :: "int option"
  e_keyValue :: "(string \<times> string) list option"
  e_path :: "string option"
  e_value :: "string option"
  e_errors :: "string list"
  e_details :: "string list"
  e_stack :: "string option"

datatype thrown = NotAnObject | ErrorObject js_error

text \<open>\<^verbatim>\<open>new AppError(message, statusCode)\<close>.\<close>

record app_error =
  ae_message :: string
  ae_statusCode :: int
  ae_status :: string
  ae_isOperational :: bool

fun leading_digit :: "nat \<Rightarrow> nat" where
  "leading_digit n = (if n < 10 then n else leading_digit (n div 10))"

declare leading_digit.simps [simp del]

text \<open>\<^verbatim>\<open>`${statusCode}`.startsWith('4')\<close> on an integer status code.\<close>

definition starts_with_4 :: "int \<Rightarrow> bool" where
  "starts_with_4 c \<longleftrightarrow> 0 < c \<and> leading_digit (nat c) = 4"

definition AppError :: "string \<Rightarrow> int \<Rightarrow> app_error" where
  "AppError message statusCode =
     \<lparr>ae_message = message, ae_statusCode = statusCode,
      ae_status = (if starts_with_4 statusCode then ''fail'' else ''error''),
      ae_isOperational = True\<rparr>"

text \<open>A template-string hole: an undefined value prints as \<^verbatim>\<open>undefined\<close>.\<close>

definition tmpl :: "string option \<Rightarrow> string" where
  "tmpl v = (case v of None \<Rightarrow> ''undefined'' | Some s \<Rightarrow> s)"

fun join :: "string \<Rightarrow> string list \<Rightarrow> string" where
  "join sep [] = []"
| "join sep [x] = x"
| "join sep (x # y # ys) = x @ sep @ join sep (y # ys)"

definition handleJoiValidationError :: "js_error \<Rightarrow> app_error" where
  "handleJoiValidationError err =
     AppError (''Invalid input data: '' @ join ''; '' (e_details err)) 400"

definition handleCastErrorDB :: "string option \<Rightarrow> string option \<Rightarrow> app_error" where
  "handleCastErrorDB path val =
     AppError (''Invalid '' @ tmpl path @ '': '' @ tmpl val @ ''.'') 400"

definition handleDuplicateFieldsDB :: "(string \<times> string) list option \<Rightarrow> app_error" where
  "handleDuplicateFieldsDB keyValue =
     (let val = (case keyValue of
                   None \<Rightarrow> ''unknown''
                 | Some kvs \<Rightarrow> tmpl (map_option snd (nth_opt kvs 0)))
      in AppError (''Duplicate field value: '' @ val @ ''. Please use another value!'') 400)"

definition handleValidationErrorDB :: "js_error \<Rightarrow> app_error" where
  "handleValidationErrorDB err =
     AppError (''Invalid input data. '' @ join ''. '' (e_errors err)) 400"

definition handleJWTError :: app_error where
  "handleJWTError = AppError ''Invalid token. Please log in again!'' 401"

definition handleJWTExpiredError :: app_error where
  "handleJWTExpiredError = AppError ''Your token has expired! Please log in again.'' 401"

definition isAppError :: "thrown \<Rightarrow> bool" where
  "isAppError err =
     (case err of
        NotAnObject \<Rightarrow> False
      | ErrorObject x \<Rightarrow> e_message x \<noteq> None \<and> e_statusCode x \<noteq> StatusOther)"

text \<open>The normalised error the handler builds, and what it sends and logs.\<close>

record normalised =
  n_name :: string
  n_message :: string
  n_statusCode :: int
  n_status :: string
  n_isOperational :: bool
  n_stack :: "string option"

datatype json = JBool bool | JString string

record response =
  res_status :: int
  res_json :: "(string \<times> json) list"

definition rd :: "(js_error \<Rightarrow> 'a option) \<Rightarrow> thrown \<Rightarrow> 'a option" where
  "rd f err = (case err of NotAnObject \<Rightarrow> None | ErrorObject x \<Rightarrow> f x)"

definition normalise :: "thrown \<Rightarrow> normalised" where
  "normalise err =
     \<lparr>n_name = (if truthy (rd e_name err) then the (rd e_name err) else ''Error''),
      n_message = (if truthy (rd e_message err) then the (rd e_message err)
                   else ''An unknown error occurred''),
      n_statusCode =
        (case (if isAppError err then rd (\<lambda>x. Some (e_statusCode x)) err else None) of
           Some (StatusNumber c) \<Rightarrow> if c \<noteq> 0 then c else 500
         | _ \<Rightarrow> 500),
      n_status = (if isAppError err \<and> truthy (rd e_status err) then the (rd e_status err)
                  else ''error''),
      n_isOperational = (if isAppError err then rd e_isOperational err = Some True else False),
      n_stack = (if truthy (rd e_stack err) then rd e_stack err else None)\<rparr>"

text \<open>The production branch: the error as rewritten for the client.\<close>

definition productionError :: "thrown \<Rightarrow> normalised \<Rightarrow> app_error" where
  "productionError err error =
     (let statusCode = (if n_statusCode error \<noteq> 0 then n_statusCode error else 500) in
      if rd (\<lambda>x. Some (e_class x)) err = Some MongooseCastError then
        handleCastErrorDB (rd e_path err) (rd e_value err)
      else if rd e_code err = Some 11000 then
        handleDuplicateFieldsDB (rd e_keyValue err)
      else if rd (\<lambda>x. Some (e_class x)) err = Some MongooseValidationError then
        handleValidationErrorDB (case err of ErrorObject x \<Rightarrow> x)
      else if rd e_name err = Some ''JsonWebTokenError'' then handleJWTError
      else if rd e_name err = Some ''TokenExpiredError'' then handleJWTExpiredError
      else if rd (\<lambda>x. Some (e_class x)) err = Some JoiValidationError then
        handleJoiValidationError (case err of ErrorObject x \<Rightarrow> x)
      else AppError (n_message error) statusCode)"

text \<open>
  \<^verbatim>\<open>errorHandler\<close>: the response, and the error part of the entry logged in development
  (the request part of the entry is left out).
\<close>

definition errorHandler :: "env \<Rightarrow> thrown \<Rightarrow> response \<times> normalised option" where
  "errorHandler e err =
     (let error0 = normalise err;
          logged = (if NODE_ENV e = Some ''development'' then Some error0 else None);
          error =
            (if NODE_ENV e \<noteq> Some ''development'' \<and> NODE_ENV e = Some ''production'' then
               (let p = productionError err error0
                in error0\<lparr>n_statusCode := ae_statusCode p, n_status := ae_status p,
                          n_message := ae_message p\<rparr>)
             else error0);
          responseStatusCode = (if n_statusCode error \<noteq> 0 then n_statusCode error else 500)
      in (\<lparr>res_status = responseStatusCode,
           res_json = [(''success'', JBool False),
                       (''error'', JString (if n_message error \<noteq> [] then n_message error
                                            else ''Server Error''))]\<rparr>,
          logged))"

text \<open>The JavaScript object a raised error is, as the handler sees it.\<close>

definition plain_error :: "string \<Rightarrow> string \<Rightarrow> js_error" where
  "plain_error name message =
     \<lparr>e_class = OtherClass, e_name = Some name, e_message = Some message,
      e_statusCode = StatusAbsent, e_status = None, e_isOperational = None, e_code = None,
      e_keyValue = None, e_path = None, e_value = None, e_errors = [], e_details = [],
      e_stack = Some (name @ '': '' @ message @ '' at ...'')\<rparr>"

fun as_thrown :: "raised \<Rightarrow> thrown" where
  "as_thrown (ErrorResponse m c) =
     ErrorObject ((plain_error ''ErrorResponse'' m)\<lparr>e_statusCode := StatusNumber c\<rparr>)"
| "as_thrown (CastError p v) =
     ErrorObject ((plain_error ''CastError'' (''Cast failed for value '' @ v @ '' at path '' @ p))
       \<lparr>e_class := MongooseCastError, e_path := Some p, e_value := Some v\<rparr>)"
| "as_thrown (ValidationError errs) =
     ErrorObject ((plain_error ''ValidationError'' (''Validation failed: '' @ join '', '' (map snd errs)))
       \<lparr>e_class := MongooseValidationError, e_errors := map snd errs\<rparr>)"
| "as_thrown (TypeError m) = ErrorObject (plain_error ''TypeError'' m)"
| "as_thrown (MongoServerError c kv m) =
     ErrorObject ((plain_error ''MongoServerError'' m)\<lparr>e_code := Some c, e_keyValue := Some kv\<rparr>)"

section \<open>The MeterReading model\<close>

record location =
  loc_type :: string
  coordinates :: "real list"
  address :: string

record meter_reading =
  mr_id :: object_id
  mr_user :: object_id
  meterNumber :: string
  reading :: real
  mr_unit :: string
  photo :: string
  mr_location :: location
  status :: string
  mr_notes :: "string option"
  readerNotes :: "string option"
  approvedBy :: "object_id option"
  approvedAt :: "int option"
  createdAt :: int
  updatedAt :: int

text \<open>
  \<^verbatim>\<open>req.body\<close> of the create and update requests, restricted to the paths of the schema
  (Mongoose drops every other key): each path is absent (\<open>None\<close>) or holds a value
  of the path's JavaScript type. A location, when present, is a whole location object.
\<close>

record reading_body =
  b_user :: "string option"
  b_meterNumber :: "string option"
  b_reading :: "real option"
  b_unit :: "string option"
  b_photo :: "string option"
  b_location :: "location option"
  b_status :: "string option"
  b_notes :: "string option"
  b_readerNotes :: "string option"
  b_approvedBy :: "string option"
  b_approvedAt :: "int option"

text \<open>
  The white space of JavaScript (\<^verbatim>\<open>WhiteSpace\<close> and \<^verbatim>\<open>LineTerminator\<close>), which
  \<^verbatim>\<open>String.prototype.trim\<close> strips and \<^verbatim>\<open>parseInt\<close> skips. A character of the model
  is a code unit below 256, so of that set it has tab, line feed, vertical tab, form
  feed, carriage return, space and the no-break space U+00A0.
\<close>

definition is_space :: "char \<Rightarrow> bool" where
  "is_space c \<longleftrightarrow>
     c \<in> set [CHR 0x09, CHR 0x0A, CHR 0x0B, CHR 0x0C, CHR 0x0D, CHR '' '', CHR 0xA0]"

text \<open>The \<^verbatim>\<open>trim: true\<close> setter of a string path: \<^verbatim>\<open>String.prototype.trim\<close>.\<close>

definition trim :: "string \<Rightarrow> string" where
  "trim s = rev (dropWhile is_space (rev (dropWhile is_space s)))"

subsection \<open>The validators of \<^verbatim>\<open>MeterReadingSchema\<close>\<close>

text \<open>
  Each function checks one path and returns the failures as (path, message) pairs.
  \<open>required_...\<close> is the \<^verbatim>\<open>required\<close> validator on a missing value.
\<close>

definition check_meterNumber :: "string \<Rightarrow> (string \<times> string) list" where
  "check_meterNumber v =
     (if v = [] then [(''meterNumber'', ''Please add a meter number'')]
      else if 50 < length v then
        [(''meterNumber'', ''Meter number cannot be more than 50 characters'')]
      else [])"

definition check_reading :: "real \<Rightarrow> (string \<times> string) list" where
  "check_reading v = (if v < 0 then [(''reading'', ''Reading must be a positive number'')] else [])"

definition check_unit :: "string \<Rightarrow> (string \<times> string) list" where
  "check_unit v =
     (if v \<in> set [''kWh'', ''units''] then []
      else [(''unit'', ''`'' @ v @ ''` is not a valid enum value for path `unit`.'')])"

definition check_photo :: "string \<Rightarrow> (string \<times> string) list" where
  "check_photo v = (if v = [] then [(''photo'', ''Please add a photo of the meter'')] else [])"

definition check_location :: "location \<Rightarrow> (string \<times> string) list" where
  "check_location l =
     (if loc_type l = ''Point'' then []
      else [(''location.type'',
             ''`'' @ loc_type l @ ''` is not a valid enum value for path `location.type`.'')]) @
     (if coordinates l = [] then [(''location.coordinates'', ''Please add coordinates'')] else []) @
     (if address l = [] then [(''location.address'', ''Please add an address'')] else [])"

definition check_status :: "string \<Rightarrow> (string \<times> string) list" where
  "check_status v =
     (if v \<in> set [''pending'', ''approved'', ''rejected''] then []
      else [(''status'', ''`'' @ v @ ''` is not a valid enum value for path `status`.'')])"

definition check_notes :: "string \<Rightarrow> (string \<times> string) list" where
  "check_notes v =
     (if 500 < length v then [(''notes'', ''Notes cannot be more than 500 characters'')] else [])"

definition check_readerNotes :: "string \<Rightarrow> (string \<times> string) list" where
  "check_readerNotes v =
     (if 500 < length v then
        [(''readerNotes'', ''Reader notes cannot be more than 500 characters'')]
      else [])"

definition opt_check :: "('a \<Rightarrow> (string \<times> string) list) \<Rightarrow> 'a option \<Rightarrow> (string \<times> string) list" where
  "opt_check f v = (case v of None \<Rightarrow> [] | Some x \<Rightarrow> f x)"


text \<open>The body after the setters of the schema have run.\<close>

definition apply_setters :: "reading_body \<Rightarrow> reading_body" where
  "apply_setters b = b\<lparr>b_meterNumber := map_option trim (b_meterNumber b)\<rparr>"

text \<open>The validators run on the paths an update sets (\<^verbatim>\<open>runValidators: true\<close>).\<close>

definition validate_update :: "reading_body \<Rightarrow> (string \<times> string) list" where
  "validate_update b =
     opt_check check_meterNumber (b_meterNumber b) @
     opt_check check_reading (b_reading b) @
     opt_check check_unit (b_unit b) @
     opt_check check_photo (b_photo b) @
     opt_check check_location (b_location b) @
     opt_check check_status (b_status b) @
     opt_check check_notes (b_notes b) @
     opt_check check_readerNotes (b_readerNotes b)"


text \<open>Casting an optional ObjectId path; \<open>Inl\<close> is the CastError.\<close>

definition cast_opt_id :: "string \<Rightarrow> string option \<Rightarrow> raised + object_id option" where
  "cast_opt_id path v =
     (case v of
        None \<Rightarrow> Inr None
      | Some s \<Rightarrow> (case castObjectId s of None \<Rightarrow> Inl (CastError path s) | Some i \<Rightarrow> Inr (Some i)))"

subsection \<open>The collection\<close>

text \<open>
  The state the handlers work on: the two collections and the names of the files in
  the uploads directory.
\<close>

record db =
  readings :: "meter_reading list"
  users :: "user list"
  uploads :: "string list"

definition MeterReading_findById :: "meter_reading list \<Rightarrow> string \<Rightarrow> raised + meter_reading option" where
  "MeterReading_findById rs ident =
     (case castObjectId ident of
        None \<Rightarrow> Inl (CastError ''_id'' ident)
      | Some i \<Rightarrow> Inr (find (\<lambda>r. mr_id r = i) rs))"



text \<open>The \<^verbatim>\<open>$set\<close> of the paths present in a body.\<close>

definition set_paths :: "reading_body \<Rightarrow> object_id option \<Rightarrow> object_id option \<Rightarrow> int \<Rightarrow> meter_reading \<Rightarrow> meter_reading" where
  "set_paths b new_user new_approver now r =
     r\<lparr>mr_user := (case new_user of None \<Rightarrow> mr_user r | Some u \<Rightarrow> u),
       meterNumber := (case b_meterNumber b of None \<Rightarrow> meterNumber r | Some v \<Rightarrow> v),
       reading := (case b_reading b of None \<Rightarrow> reading r | Some v \<Rightarrow> v),
       mr_unit := (case b_unit b of None \<Rightarrow> mr_unit r | Some v \<Rightarrow> v),
       photo := (case b_photo b of None \<Rightarrow> photo r | Some v \<Rightarrow> v),
       mr_location := (case b_location b of None \<Rightarrow> mr_location r | Some v \<Rightarrow> v),
       status := (case b_status b of None \<Rightarrow> status r | Some v \<Rightarrow> v),
       mr_notes := (case b_notes b of None \<Rightarrow> mr_notes r | Some v \<Rightarrow> Some v),
       readerNotes := (case b_readerNotes b of None \<Rightarrow> readerNotes r | Some v \<Rightarrow> Some v),
       approvedBy := (case new_approver of None \<Rightarrow> approvedBy r | Some v \<Rightarrow> Some v),
       approvedAt := (case b_approvedAt b of None \<Rightarrow> approvedAt r | Some v \<Rightarrow> Some v),
       updatedAt := now\<rparr>"

text \<open>
  \<^verbatim>\<open>MeterReading.findByIdAndUpdate(id, body, {new: true, runValidators: true})\<close>: the
  identifier and the body are cast, the validators run on the paths of the body, and
  the first document with the identifier is updated; the result is the updated
  document (\<open>None\<close> when there is none) and the collection.
\<close>

definition MeterReading_findByIdAndUpdate ::
  "int \<Rightarrow> string \<Rightarrow> reading_body \<Rightarrow> meter_reading list \<Rightarrow> raised + meter_reading option \<times> meter_reading list" where
  "MeterReading_findByIdAndUpdate now ident body rs =
     (case castObjectId ident of
        None \<Rightarrow> Inl (CastError ''_id'' ident)
      | Some i \<Rightarrow>
          (let b = apply_setters body in
           case cast_opt_id ''user'' (b_user b) of
             Inl e \<Rightarrow> Inl e
           | Inr new_user \<Rightarrow>
               (case cast_opt_id ''approvedBy'' (b_approvedBy b) of
                  Inl e \<Rightarrow> Inl e
                | Inr new_approver \<Rightarrow>
                    if validate_update b \<noteq> [] then Inl (ValidationError (validate_update b))
                    else
                      (case find (\<lambda>r. mr_id r = i) rs of
                         None \<Rightarrow> Inr (None, rs)
                       | Some r \<Rightarrow>
                           (let r' = set_paths b new_user new_approver now r
                            in Inr (Some r',
                                    takeWhile (\<lambda>r. mr_id r \<noteq> i) rs @ r' #
                                    tl (dropWhile (\<lambda>r. mr_id r \<noteq> i) rs)))))))"

text \<open>\<^verbatim>\<open>MeterReading.deleteOne({_id})\<close>: the first document with the identifier goes.\<close>

definition MeterReading_deleteOne :: "object_id \<Rightarrow> meter_reading list \<Rightarrow> meter_reading list" where
  "MeterReading_deleteOne i rs =
     takeWhile (\<lambda>r. mr_id r \<noteq> i) rs @ tl (dropWhile (\<lambda>r. mr_id r \<noteq> i) rs)"

text \<open>\<^verbatim>\<open>.populate('user', 'name email')\<close>: the owner's document, or null when it is gone.\<close>

record populated_user =
  pu_id :: object_id
  pu_name :: string
  pu_email :: string

record populated_reading =
  pr_doc :: meter_reading
  pr_user :: "populated_user option"

definition populate :: "user list \<Rightarrow> meter_reading \<Rightarrow> populated_reading" where
  "populate us r =
     \<lparr>pr_doc = r,
      pr_user = map_option (\<lambda>u. \<lparr>pu_id = u_id u, pu_name = u_name u, pu_email = u_email u\<rparr>)
                  (find (\<lambda>u. u_id u = mr_user r) us)\<rparr>"

section \<open>The meter controller\<close>

subsection \<open>\<^verbatim>\<open>parseInt\<close>\<close>




subsection \<open>Listing\<close>






text \<open>
  \<^verbatim>\<open>.sort({createdAt: -1}).skip(skip).limit(limit)\<close>: newest first; the database
  refuses a negative skip and reads a negative limit as its absolute value.
\<close>

definition sort_skip_limit :: "int \<Rightarrow> int \<Rightarrow> meter_reading list \<Rightarrow> raised + meter_reading list" where
  "sort_skip_limit skip limit rs =
     (if skip < 0 then Inl (MongoServerError 2 [] ''BSON field skip value must be >= 0'')
      else Inr (take (nat \<bar>limit\<bar>) (drop (nat skip) (rev (sort_key createdAt rs)))))"




subsection \<open>Reading, creating, updating and deleting one document\<close>

text \<open>
  Each handler returns what it sends (\<open>Inr\<close>) or forwards to \<^verbatim>\<open>next\<close> (\<open>Inl\<close>),
  together with the state it leaves.
\<close>

definition not_found :: "string \<Rightarrow> raised" where
  "not_found ident = ErrorResponse (''Meter reading not found with id of '' @ ident) 404"

definition not_authorized :: "identity \<Rightarrow> string \<Rightarrow> raised" where
  "not_authorized u what =
     ErrorResponse (''User '' @ id_id u @ '' is not authorized to '' @ what @ '' this meter reading'') 401"

definition getMeterReading :: "db \<Rightarrow> identity \<Rightarrow> string \<Rightarrow> (raised + populated_reading) \<times> db" where
  "getMeterReading d u ident =
     (case MeterReading_findById (readings d) ident of
        Inl e \<Rightarrow> (Inl e, d)
      | Inr None \<Rightarrow> (Inl (not_found ident), d)
      | Inr (Some r) \<Rightarrow>
          (let meterReading = populate (users d) r in
           case pr_user meterReading of
             None \<Rightarrow> (Inl (TypeError ''Cannot read properties of null (reading _id)''), d)
           | Some owner \<Rightarrow>
               if oid_toString (pu_id owner) \<noteq> id_id u \<and> id_role u \<noteq> RoleAdmin
               then (Inl (not_authorized u ''access''), d)
               else (Inr meterReading, d)))"

text \<open>
  \<open>validation_ok\<close> is \<^verbatim>\<open>validationResult(req).isEmpty()\<close>, the outcome of the checks
  the router attaches; \<open>new_id\<close> and \<open>now\<close> are the identifier and the time the
  database gives the new document.
\<close>



definition updateMeterReading ::
  "db \<Rightarrow> identity \<Rightarrow> int \<Rightarrow> string \<Rightarrow> reading_body \<Rightarrow> (raised + meter_reading option) \<times> db" where
  "updateMeterReading d u now ident body0 =
     (case MeterReading_findById (readings d) ident of
        Inl e \<Rightarrow> (Inl e, d)
      | Inr None \<Rightarrow> (Inl (not_found ident), d)
      | Inr (Some meterReading) \<Rightarrow>
          if oid_toString (mr_user meterReading) \<noteq> id_id u \<and> id_role u \<noteq> RoleAdmin
          then (Inl (not_authorized u ''update''), d)
          else
            (let body = (if truthy (b_status body0) \<and> id_role u = RoleAdmin
                         then body0\<lparr>b_approvedBy := Some (id_id u), b_approvedAt := Some now\<rparr>
                         else body0)
             in case MeterReading_findByIdAndUpdate now ident body (readings d) of
                  Inl e \<Rightarrow> (Inl e, d)
                | Inr (updated, rs') \<Rightarrow> (Inr updated, d\<lparr>readings := rs'\<rparr>)))"

definition deleteMeterReading :: "db \<Rightarrow> identity \<Rightarrow> string \<Rightarrow> (raised + unit) \<times> db" where
  "deleteMeterReading d u ident =
     (case MeterReading_findById (readings d) ident of
        Inl e \<Rightarrow> (Inl e, d)
      | Inr None \<Rightarrow> (Inl (not_found ident), d)
      | Inr (Some meterReading) \<Rightarrow>
          if oid_toString (mr_user meterReading) \<noteq> id_id u \<and> id_role u \<noteq> RoleAdmin
          then (Inl (not_authorized u ''delete''), d)
          else
            (let files = (if photo meterReading \<noteq> [] \<and> photo meterReading \<in> set (uploads d)
                          then removeAll (photo meterReading) (uploads d)
                          else uploads d)
             in (Inr (),
                 d\<lparr>uploads := files,
                   readings := MeterReading_deleteOne (mr_id meterReading) (readings d)\<rparr>)))"

subsection \<open>Radius search\<close>




section \<open>Registration\<close>

text \<open>
  Modelled from the spec: the \<^verbatim>\<open>register\<close> handler of the auth controller, which is
  not among the sources (only its route and the \<^verbatim>\<open>unique: true\<close> email of
  \<^verbatim>\<open>UserSchema\<close> are). The spec: a user's email is unique, and registering with a
  duplicate email returns a conflict error, not a created user; otherwise the user is
  created. The conflict is the duplicate-key error (code 11000) of the database, whose
  \<^verbatim>\<open>keyValue\<close> holds the conflicting key. The validation of the body and the hashing
  of the password are left out.
\<close>

definition register :: "user \<Rightarrow> user list \<Rightarrow> (raised + user) \<times> user list" where
  "register u us =
     (if u_email u \<in> set (map u_email us)
      then (Inl (MongoServerError 11000 [(''email'', u_email u)]
                   (''E11000 duplicate key error collection: users index: email_1 dup key: { email: '' @
                    u_email u @ '' }'')), us)
      else (Inr u, us @ [u]))"

section \<open>Vocabulary of the properties\<close>

text \<open>
  The header carries a bearer token when it is present and starts with \<^verbatim>\<open>Bearer\<close>;
  the token is then the second piece of the header split at spaces.
\<close>

definition bearer :: "string option \<Rightarrow> bool" where
  "bearer authorization \<longleftrightarrow> (\<exists>h. authorization = Some h \<and> startsWith h ''Bearer'')"

definition bearer_token :: "string option \<Rightarrow> string option" where
  "bearer_token authorization = nth_opt (split CHR '' '' (the authorization)) 1"

text \<open>The life time \<^verbatim>\<open>getSignedJwtToken\<close> gives a token, in seconds.\<close>

definition life_time :: "env \<Rightarrow> int" where
  "life_time e = (case JWT_EXPIRE e of Some d \<Rightarrow> d | None \<Rightarrow> 30 * 24 * 60 * 60)"

subsection \<open>Example data\<close>

definition alice :: user where
  "alice = \<lparr>u_id = Oid ''5f1d7f3e8b3c2a0017a1b2c3'', u_name = ''Alice'',
            u_email = ''alice@example.com'', u_password = ''$2a$10$hash'', u_role = RoleUser,
            resetPasswordToken = None, resetPasswordExpire = None\<rparr>"

definition root :: user where
  "root = \<lparr>u_id = Oid ''5f1d7f3e8b3c2a0017a1b2c4'', u_name = ''Root'',
           u_email = ''root@example.com'', u_password = ''$2a$10$hash'', u_role = RoleAdmin,
           resetPasswordToken = None, resetPasswordExpire = None\<rparr>"

definition bytes1 :: "8 word list" where
  "bytes1 = [1, 2, 3, 4, 5, 6, 7, 8, 9, 10, 11, 12, 13, 14, 15, 16, 17, 18, 19, 255]"

definition bytes2 :: "8 word list" where
  "bytes2 = [0, 2, 3, 4, 5, 6, 7, 8, 9, 10, 11, 12, 13, 14, 15, 16, 17, 18, 19, 255]"

definition demo_env :: env where
  "demo_env = \<lparr>NODE_ENV = Some ''production'', JWT_SECRET = Some ''s3cret'', JWT_EXPIRE = None\<rparr>"

subsection \<open>An example token library\<close>

text \<open>
  A token library that can be run. A string is written with two letters of
  \<^verbatim>\<open>A\<close>..\<^verbatim>\<open>P\<close> for each character, an integer in decimal, and a token is the id, the
  two times and the signature in that form, joined by dots. The signature is the key
  followed by the id and the times.
\<close>

definition enc_char :: "char \<Rightarrow> string" where
  "enc_char c = [char_of (65 + (of_char c :: nat) div 16), char_of (65 + (of_char c :: nat) mod 16)]"

definition enc_string :: "string \<Rightarrow> string" where
  "enc_string s = concat (map enc_char s)"

fun dec_string :: "string \<Rightarrow> string" where
  "dec_string (a # b # r) =
     char_of (((of_char a :: nat) - 65) * 16 + ((of_char b :: nat) - 65)) # dec_string r"
| "dec_string r = []"

fun decimal :: "nat \<Rightarrow> string" where
  "decimal n = (if n < 10 then [char_of (48 + n)] else decimal (n div 10) @ [char_of (48 + n mod 10)])"

declare decimal.simps [simp del]

definition undecimal :: "string \<Rightarrow> nat" where
  "undecimal s = foldl (\<lambda>a c. 10 * a + ((of_char c :: nat) - 48)) 0 s"

definition enc_int :: "int \<Rightarrow> string" where
  "enc_int i = (if i < 0 then CHR ''-'' # decimal (nat (- i)) else decimal (nat i))"

definition dec_int :: "string \<Rightarrow> int" where
  "dec_int s =
     (case s of [] \<Rightarrow> 0 | c # r \<Rightarrow> if c = CHR ''-'' then - int (undecimal r) else int (undecimal s))"

definition demo_hmac :: "string \<Rightarrow> jwt_payload \<Rightarrow> string" where
  "demo_hmac key p =
     key @ '':'' @ oid_toString (jp_id p) @ '':'' @ enc_int (jp_iat p) @ '':'' @ enc_int (jp_exp p)"

definition demo_serialise :: "signed_jwt \<Rightarrow> string" where
  "demo_serialise j =
     enc_string (oid_toString (jp_id (jwt_body j))) @ ''.'' @ enc_int (jp_iat (jwt_body j)) @ ''.'' @
     enc_int (jp_exp (jwt_body j)) @ ''.'' @ enc_string (jwt_signature j)"

definition demo_parse :: "string \<Rightarrow> signed_jwt option" where
  "demo_parse s =
     (case split CHR ''.'' s of
        [a, b, c, d] \<Rightarrow>
          Some \<lparr>jwt_body = \<lparr>jp_id = Oid (dec_string a), jp_iat = dec_int b, jp_exp = dec_int c\<rparr>,
                jwt_signature = dec_string d\<rparr>
      | _ \<Rightarrow> None)"

definition demo_lib :: jwt_lib where
  "demo_lib = \<lparr>hmac = demo_hmac, serialise = demo_serialise, parse = demo_parse\<rparr>"

subsection \<open>Categories of errors\<close>

text \<open>
  An error is unrecognised when it is in none of the categories the middleware knows:
  cast, duplicate key, validation (of Mongoose or of Joi) and the two token errors.
  It carries no status code when it has no \<^verbatim>\<open>statusCode\<close> property.
\<close>

definition unrecognised :: "thrown \<Rightarrow> bool" where
  "unrecognised err \<longleftrightarrow>
     rd (\<lambda>x. Some (e_class x)) err \<notin>
       {Some MongooseCastError, Some MongooseValidationError, Some JoiValidationError} \<and>
     rd e_code err \<noteq> Some 11000 \<and>
     rd e_name err \<notin> {Some ''JsonWebTokenError'', Some ''TokenExpiredError''}"

definition no_status_code :: "thrown \<Rightarrow> bool" where
  "no_status_code err \<longleftrightarrow>
     (case err of NotAnObject \<Rightarrow> True | ErrorObject x \<Rightarrow> e_statusCode x = StatusAbsent)"

text \<open>The message the client of a production server gets for an error of its own.\<close>

definition client_message :: "thrown \<Rightarrow> string" where
  "client_message err =
     (if truthy (rd e_message err) then the (rd e_message err) else ''An unknown error occurred'')"

text \<open>
  The status an error carries: its \<^verbatim>\<open>statusCode\<close> when that is a number other than 0
  and the error has a message, and 500 otherwise.
\<close>

definition own_status :: "thrown \<Rightarrow> int" where
  "own_status err =
     (case err of
        NotAnObject \<Rightarrow> 500
      | ErrorObject x \<Rightarrow>
          (case e_statusCode x of
             StatusNumber c \<Rightarrow> if c \<noteq> 0 \<and> e_message x \<noteq> None then c else 500
           | _ \<Rightarrow> 500))"

definition json_error :: "int \<Rightarrow> string \<Rightarrow> response" where
  "json_error code message =
     \<lparr>res_status = code, res_json = [(''success'', JBool False), (''error'', JString message)]\<rparr>"

definition duplicate_message :: "string \<Rightarrow> string" where
  "duplicate_message val = ''Duplicate field value: '' @ val @ ''. Please use another value!''"

subsection \<open>Example collections\<close>

definition bob :: user where
  "bob = \<lparr>u_id = Oid ''5f1d7f3e8b3c2a0017a1b2c5'', u_name = ''Bob'',
          u_email = ''bob@example.com'', u_password = ''$2a$10$hash'', u_role = RoleUser,
          resetPasswordToken = None, resetPasswordExpire = None\<rparr>"

definition as_identity :: "user \<Rightarrow> identity" where
  "as_identity u = \<lparr>id_id = oid_toString (u_id u), id_role = u_role u, id_name = u_name u,
                    id_email = u_email u\<rparr>"

definition reading1 :: meter_reading where
  "reading1 =
     \<lparr>mr_id = Oid ''64b000000000000000000001'', mr_user = Oid ''5f1d7f3e8b3c2a0017a1b2c3'',
      meterNumber = ''M-1'', reading = 42, mr_unit = ''units'', photo = ''photo_1.jpg'',
      mr_location = \<lparr>loc_type = ''Point'', coordinates = [72, 23], address = ''Ahmedabad''\<rparr>,
      status = ''pending'', mr_notes = None, readerNotes = None, approvedBy = None,
      approvedAt = None, createdAt = 100, updatedAt = 100\<rparr>"

definition reading2 :: meter_reading where
  "reading2 =
     \<lparr>mr_id = Oid ''64b000000000000000000002'', mr_user = Oid ''5f1d7f3e8b3c2a0017a1b2c5'',
      meterNumber = ''M-2'', reading = 7, mr_unit = ''kWh'', photo = ''photo_2.jpg'',
      mr_location = \<lparr>loc_type = ''Point'', coordinates = [0, 0], address = ''Null Island''\<rparr>,
      status = ''approved'', mr_notes = None, readerNotes = None,
      approvedBy = Some (Oid ''5f1d7f3e8b3c2a0017a1b2c4''), approvedAt = Some 150,
      createdAt = 120, updatedAt = 150\<rparr>"

definition demo_db :: db where
  "demo_db = \<lparr>readings = [reading1, reading2], users = [alice, root, bob],
              uploads = [''photo_1.jpg'', ''photo_2.jpg'']\<rparr>"

definition empty_body :: reading_body where
  "empty_body =
     \<lparr>b_user = None, b_meterNumber = None, b_reading = None, b_unit = None, b_photo = None,
      b_location = None, b_status = None, b_notes = None, b_readerNotes = None,
      b_approvedBy = None, b_approvedAt = None\<rparr>"


text \<open>
  The collection after \<open>alice\<close> has handed her reading to an owner that is in no
  collection, by an update whose body sets \<^verbatim>\<open>user\<close>.
\<close>

definition orphan_db :: db where
  "orphan_db =
     snd (updateMeterReading demo_db (as_identity alice) 200 ''64b000000000000000000001''
            (empty_body\<lparr>b_user := Some ''ffffffffffffffffffffffff''\<rparr>))"






section \<open>Properties of the reset token\<close>

lemma hex_digit_inj: "a < 16 \<Longrightarrow> b < 16 \<Longrightarrow> hex_digit a = hex_digit b \<Longrightarrow> a = b"
proof -
  assume a: "a < 16" and b: "b < 16" and e: "hex_digit a = hex_digit b"
  have d: "distinct ''0123456789abcdef''" by simp
  have l: "length ''0123456789abcdef'' = 16" by simp
  from e have "''0123456789abcdef'' ! a = ''0123456789abcdef'' ! b"
    by (simp only: hex_digit_def)
  with d a b l show "a = b"
    by (simp only: nth_eq_iff_index_eq)
qed

lemma hex_byte_inj: "hex_byte a = hex_byte b \<Longrightarrow> a = b"
proof -
  assume e: "hex_byte a = hex_byte b"
  have la: "unat a < 256" using unsigned_less [of a, where 'a = nat] by simp
  have lb: "unat b < 256" using unsigned_less [of b, where 'a = nat] by simp
  from la have da: "unat a div 16 < 16" by simp
  from lb have db: "unat b div 16 < 16" by simp
  from e have h1: "hex_digit (unat a div 16) = hex_digit (unat b div 16)"
    and h2: "hex_digit (unat a mod 16) = hex_digit (unat b mod 16)"
    by (simp_all add: hex_byte_def)
  from hex_digit_inj [OF da db h1] have q: "unat a div 16 = unat b div 16" .
  have "unat a mod 16 < 16" "unat b mod 16 < 16" by simp_all
  from hex_digit_inj [OF this h2] have r: "unat a mod 16 = unat b mod 16" .
  have "unat a = unat b" using q r by (metis div_mult_mod_eq)
  then show "a = b" by (simp only: word_unat_eq_iff)
qed

lemma toString_hex_inj: "toString_hex xs = toString_hex ys \<Longrightarrow> xs = ys"
proof (induction xs arbitrary: ys)
  case Nil
  then show ?case by (cases ys) (simp_all add: toString_hex_def hex_byte_def)
next
  case (Cons x xs)
  show ?case
  proof (cases ys)
    case Nil
    with Cons.prems show ?thesis by (simp add: toString_hex_def hex_byte_def)
  next
    case (Cons y ys')
    with Cons.prems have e: "hex_byte x @ toString_hex xs = hex_byte y @ toString_hex ys'"
      by (simp add: toString_hex_def)
    have "length (hex_byte x) = length (hex_byte y)" by (simp add: hex_byte_def)
    with e have "hex_byte x = hex_byte y" and "toString_hex xs = toString_hex ys'" by simp_all
    with Cons.IH hex_byte_inj Cons show ?thesis by blast
  qed
qed

lemma length_toString_hex: "length (toString_hex bs) = 2 * length bs"
  by (induction bs) (simp_all add: toString_hex_def hex_byte_def)

text \<open>
  Claim C10. \<^verbatim>\<open>getResetPasswordToken\<close> returns the hexadecimal text of 20 freshly
  drawn bytes as the plaintext token (40 characters, and another draw gives another
  token), changes the user only in \<open>resetPasswordToken\<close>, which becomes the SHA-256
  digest of that token and never the token itself, and in \<open>resetPasswordExpire\<close>,
  which becomes the current time plus 10 minutes (600000 ms).
\<close>

theorem getResetPasswordToken_spec:
  assumes "length (randomBytes 20) = 20" and "\<And>x. length (sha256 x) = 64"
  shows "fst (getResetPasswordToken sha256 randomBytes now u) = toString_hex (randomBytes 20)
       \<and> length (fst (getResetPasswordToken sha256 randomBytes now u)) = 40
       \<and> (randomBytes' 20 \<noteq> randomBytes 20 \<longrightarrow>
            fst (getResetPasswordToken sha256 randomBytes' now' u) \<noteq>
            fst (getResetPasswordToken sha256 randomBytes now u))
       \<and> snd (getResetPasswordToken sha256 randomBytes now u) =
           u\<lparr>resetPasswordToken := Some (sha256 (fst (getResetPasswordToken sha256 randomBytes now u))),
             resetPasswordExpire := Some (now + 600000)\<rparr>
       \<and> resetPasswordToken (snd (getResetPasswordToken sha256 randomBytes now u))
           \<noteq> Some (fst (getResetPasswordToken sha256 randomBytes now u))"
proof -
  have 1: "fst (getResetPasswordToken sha256 randomBytes now u) = toString_hex (randomBytes 20)"
    by (simp add: getResetPasswordToken_def Let_def)
  have 2: "length (toString_hex (randomBytes 20)) = 40"
    using assms(1) by (simp add: length_toString_hex)
  have 3: "randomBytes' 20 \<noteq> randomBytes 20 \<longrightarrow>
           toString_hex (randomBytes' 20) \<noteq> toString_hex (randomBytes 20)"
    using toString_hex_inj by blast
  have 4: "snd (getResetPasswordToken sha256 randomBytes now u) =
           u\<lparr>resetPasswordToken := Some (sha256 (toString_hex (randomBytes 20))),
             resetPasswordExpire := Some (now + 600000)\<rparr>"
    by (simp add: getResetPasswordToken_def Let_def)
  have 5: "sha256 (toString_hex (randomBytes 20)) \<noteq> toString_hex (randomBytes 20)"
    using assms(2) [of "toString_hex (randomBytes 20)"] 2 by auto
  show ?thesis using 1 2 3 4 5
    by (simp add: getResetPasswordToken_def Let_def)
qed

text \<open>Two draws of 20 bytes that differ in the first byte, and a digest of 64 zeros.\<close>

theorem getResetPasswordToken_spec_witness:
  "fst (getResetPasswordToken (\<lambda>x. replicate 64 CHR ''0'') (\<lambda>n. take n bytes1) 1000 alice)
     = ''0102030405060708090a0b0c0d0e0f10111213ff''
   \<and> fst (getResetPasswordToken (\<lambda>x. replicate 64 CHR ''0'') (\<lambda>n. take n bytes2) 5 alice)
     \<noteq> fst (getResetPasswordToken (\<lambda>x. replicate 64 CHR ''0'') (\<lambda>n. take n bytes1) 1000 alice)
   \<and> resetPasswordToken (snd (getResetPasswordToken (\<lambda>x. replicate 64 CHR ''0'')
          (\<lambda>n. take n bytes1) 1000 alice))
     = Some (replicate 64 CHR ''0'')
   \<and> resetPasswordExpire (snd (getResetPasswordToken (\<lambda>x. replicate 64 CHR ''0'')
          (\<lambda>n. take n bytes1) 1000 alice))
     = Some 601000"
proof -
  let ?sha = "\<lambda>x :: string. replicate 64 CHR ''0''"
  let ?r1 = "\<lambda>n. take n bytes1" and ?r2 = "\<lambda>n. take n bytes2"
  have a: "length (?r1 20) = 20" by (simp add: bytes1_def)
  have b: "\<And>x. length (?sha x) = 64" by simp
  have c: "?r2 20 \<noteq> ?r1 20" by (simp add: bytes1_def bytes2_def)
  have d: "toString_hex (?r1 20) = ''0102030405060708090a0b0c0d0e0f10111213ff''"
    by (simp add: bytes1_def toString_hex_def hex_byte_def hex_digit_def)
  note t = getResetPasswordToken_spec [of ?r1 ?sha, OF a b, where randomBytes' = ?r2
      and now' = 5 and u = alice and now = 1000]
  from t d have 1: "fst (getResetPasswordToken ?sha ?r1 1000 alice)
     = ''0102030405060708090a0b0c0d0e0f10111213ff''" by (simp only:)
  from t c have 2: "fst (getResetPasswordToken ?sha ?r2 5 alice)
     \<noteq> fst (getResetPasswordToken ?sha ?r1 1000 alice)" by blast
  from t have 3: "snd (getResetPasswordToken ?sha ?r1 1000 alice)
      = alice\<lparr>resetPasswordToken := Some (replicate 64 CHR ''0''),
          resetPasswordExpire := Some 601000\<rparr>" by simp
  have 4: "resetPasswordToken (snd (getResetPasswordToken ?sha ?r1 1000 alice))
     = Some (replicate 64 CHR ''0'')" by (simp only: 3) simp
  have 5: "resetPasswordExpire (snd (getResetPasswordToken ?sha ?r1 1000 alice))
     = Some 601000" by (simp only: 3) simp
  from 1 2 4 5 show ?thesis by (intro conjI)
qed

section \<open>Properties of the auth middleware\<close>

lemma jwt_verify_truthy: "jwt_verify lib token secret now = Inr p \<Longrightarrow> truthy token"
  by (auto simp: jwt_verify_def split: if_splits)

lemma protect_no_bearer:
  "\<not> bearer a \<Longrightarrow>
   protect lib e us now a = (None, [Forward (ErrorResponse ''Not authorized, no token'' 401)])"
  by (cases a) (simp_all add: protect_def bearer_def)

lemma protect_token_failed:
  "bearer a \<Longrightarrow>
   \<not> truthy (JWT_SECRET e) \<or> jwt_verify lib (bearer_token a) (the (JWT_SECRET e)) now = Inl err \<Longrightarrow>
   protect lib e us now a = (None, [Forward (ErrorResponse ''Not authorized, token failed'' 401)])"
  by (auto simp: protect_def bearer_def bearer_token_def Let_def)

lemma protect_user_gone:
  "bearer a \<Longrightarrow> truthy (JWT_SECRET e) \<Longrightarrow>
   jwt_verify lib (bearer_token a) (the (JWT_SECRET e)) now = Inr p \<Longrightarrow>
   User_findById us (jp_id p) = None \<Longrightarrow>
   protect lib e us now a = (None, [Forward (ErrorResponse ''User not found'' 404)])"
  by (auto simp: protect_def bearer_def bearer_token_def Let_def)

lemma protect_ok:
  "bearer a \<Longrightarrow> truthy (JWT_SECRET e) \<Longrightarrow>
   jwt_verify lib (bearer_token a) (the (JWT_SECRET e)) now = Inr p \<Longrightarrow>
   User_findById us (jp_id p) = Some u \<Longrightarrow>
   protect lib e us now a =
     (Some \<lparr>id_id = oid_toString (u_id u), id_role = u_role u, id_name = u_name u,
            id_email = u_email u\<rparr>, [Continue])"
  using jwt_verify_truthy [of lib "bearer_token a" "the (JWT_SECRET e)" now p]
  by (auto simp: protect_def bearer_def bearer_token_def Let_def select_no_password_def)

text \<open>
  Claim C7. A request without a bearer token is forwarded as 401; with one, a missing
  secret or any failure of the token's verification (missing, empty or unreadable
  token, wrong signature, expiry) is forwarded as 401; a verified token whose user is
  not in the collection is forwarded as 404; otherwise the identity (id, role, name,
  email, read without the password) is attached and \<^verbatim>\<open>next()\<close> is called once.
\<close>

theorem protect_outcomes:
  "(\<not> bearer a \<longrightarrow>
      protect lib e us now a = (None, [Forward (ErrorResponse ''Not authorized, no token'' 401)]))
   \<and> (bearer a \<and> (\<not> truthy (JWT_SECRET e) \<or>
         (\<exists>err. jwt_verify lib (bearer_token a) (the (JWT_SECRET e)) now = Inl err)) \<longrightarrow>
      protect lib e us now a = (None, [Forward (ErrorResponse ''Not authorized, token failed'' 401)]))
   \<and> (\<forall>p. bearer a \<and> truthy (JWT_SECRET e) \<and>
         jwt_verify lib (bearer_token a) (the (JWT_SECRET e)) now = Inr p \<longrightarrow>
         (case User_findById us (jp_id p) of
            None \<Rightarrow> protect lib e us now a = (None, [Forward (ErrorResponse ''User not found'' 404)])
          | Some u \<Rightarrow>
              protect lib e us now a =
                (Some \<lparr>id_id = oid_toString (u_id u), id_role = u_role u, id_name = u_name u,
                       id_email = u_email u\<rparr>, [Continue])))"
proof (intro conjI impI allI)
  assume "\<not> bearer a"
  then show "protect lib e us now a = (None, [Forward (ErrorResponse ''Not authorized, no token'' 401)])"
    by (rule protect_no_bearer)
next
  assume "bearer a \<and> (\<not> truthy (JWT_SECRET e) \<or>
         (\<exists>err. jwt_verify lib (bearer_token a) (the (JWT_SECRET e)) now = Inl err))"
  then show "protect lib e us now a = (None, [Forward (ErrorResponse ''Not authorized, token failed'' 401)])"
    using protect_token_failed by blast
next
  fix p
  assume h: "bearer a \<and> truthy (JWT_SECRET e) \<and>
         jwt_verify lib (bearer_token a) (the (JWT_SECRET e)) now = Inr p"
  show "case User_findById us (jp_id p) of
            None \<Rightarrow> protect lib e us now a = (None, [Forward (ErrorResponse ''User not found'' 404)])
          | Some u \<Rightarrow>
              protect lib e us now a =
                (Some \<lparr>id_id = oid_toString (u_id u), id_role = u_role u, id_name = u_name u,
                       id_email = u_email u\<rparr>, [Continue])"
  proof (cases "User_findById us (jp_id p)")
    case None
    with h protect_user_gone show ?thesis by simp
  next
    case (Some u)
    with h protect_ok show ?thesis by simp
  qed
qed

lemma split_on_no_sep: "sep \<notin> set s \<Longrightarrow> split_on sep acc s = [rev acc @ s]"
  by (induction s arbitrary: acc) auto

lemma bearer_token_of_header:
  "CHR '' '' \<notin> set tok \<Longrightarrow> bearer_token (Some (''Bearer '' @ tok)) = Some tok"
  by (simp add: bearer_token_def split_def split_on_no_sep nth_opt_def)

lemma bearer_header: "bearer (Some (''Bearer '' @ tok))"
  by (simp add: bearer_def startsWith_def)

lemma getSignedJwtToken_configured:
  "truthy (JWT_SECRET e) \<Longrightarrow>
   getSignedJwtToken lib e iat u =
     serialise lib (issue lib (u_id u) (the (JWT_SECRET e)) (life_time e) iat)"
  by (simp add: getSignedJwtToken_def jwt_sign_def life_time_def)

lemma jwt_verify_issue:
  assumes "parse lib (serialise lib (issue lib i secret d iat)) = Some (issue lib i secret d iat)"
    and "serialise lib (issue lib i secret d iat) \<noteq> []"
  shows "jwt_verify lib (Some (serialise lib (issue lib i secret d iat))) secret clk =
           (if iat + d \<le> clk then Inl TokenExpiredError
            else Inr \<lparr>jp_id = i, jp_iat = iat, jp_exp = iat + d\<rparr>)"
  using assms by (simp add: jwt_verify_def truthy_def issue_def Let_def)

text \<open>
  What the middleware's verification makes of a token of \<^verbatim>\<open>getSignedJwtToken\<close> that is
  presented as \<^verbatim>\<open>Bearer <token>\<close>, for a library that reads back every token it
  writes and writes no empty text and no space.
\<close>

lemma verify_presented:
  assumes secret: "truthy (JWT_SECRET e)"
    and codec: "\<And>j. parse lib (serialise lib j) = Some j"
    and shape: "\<And>j. serialise lib j \<noteq> [] \<and> CHR '' '' \<notin> set (serialise lib j)"
  shows "jwt_verify lib (bearer_token (Some (''Bearer '' @ getSignedJwtToken lib e iat u)))
           (the (JWT_SECRET e)) clk =
           (if iat + life_time e \<le> clk then Inl TokenExpiredError
            else Inr \<lparr>jp_id = u_id u, jp_iat = iat, jp_exp = iat + life_time e\<rparr>)"
proof -
  let ?j = "issue lib (u_id u) (the (JWT_SECRET e)) (life_time e) iat"
  have tok: "getSignedJwtToken lib e iat u = serialise lib ?j"
    using secret by (rule getSignedJwtToken_configured)
  have "bearer_token (Some (''Bearer '' @ serialise lib ?j)) = Some (serialise lib ?j)"
    using shape [of ?j] bearer_token_of_header by blast
  moreover have "jwt_verify lib (Some (serialise lib ?j)) (the (JWT_SECRET e)) clk =
           (if iat + life_time e \<le> clk then Inl TokenExpiredError
            else Inr \<lparr>jp_id = u_id u, jp_iat = iat, jp_exp = iat + life_time e\<rparr>)"
    using codec [of ?j] shape [of ?j] by (simp add: jwt_verify_issue)
  ultimately show ?thesis by (simp only: tok)
qed

lemma presented_in_time:
  assumes secret: "truthy (JWT_SECRET e)"
    and codec: "\<And>j. parse lib (serialise lib j) = Some j"
    and shape: "\<And>j. serialise lib j \<noteq> [] \<and> CHR '' '' \<notin> set (serialise lib j)"
    and fresh: "clk < iat + life_time e"
    and there: "User_findById us (u_id u) = Some u"
  shows "protect lib e us clk (Some (''Bearer '' @ getSignedJwtToken lib e iat u)) =
           (Some \<lparr>id_id = oid_toString (u_id u), id_role = u_role u, id_name = u_name u,
                  id_email = u_email u\<rparr>, [Continue])"
proof -
  have "jwt_verify lib (bearer_token (Some (''Bearer '' @ getSignedJwtToken lib e iat u)))
          (the (JWT_SECRET e)) clk = Inr \<lparr>jp_id = u_id u, jp_iat = iat, jp_exp = iat + life_time e\<rparr>"
    using verify_presented [OF secret codec shape, where iat = iat and clk = clk and u = u] fresh by simp
  from protect_ok [OF bearer_header secret this, where us = us and u = u] there show ?thesis by simp
qed

lemma presented_late:
  assumes secret: "truthy (JWT_SECRET e)"
    and codec: "\<And>j. parse lib (serialise lib j) = Some j"
    and shape: "\<And>j. serialise lib j \<noteq> [] \<and> CHR '' '' \<notin> set (serialise lib j)"
    and late: "iat + life_time e \<le> clk"
  shows "protect lib e us clk (Some (''Bearer '' @ getSignedJwtToken lib e iat u)) =
           (None, [Forward (ErrorResponse ''Not authorized, token failed'' 401)])"
proof -
  have "jwt_verify lib (bearer_token (Some (''Bearer '' @ getSignedJwtToken lib e iat u)))
          (the (JWT_SECRET e)) clk = Inl TokenExpiredError"
    using verify_presented [OF secret codec shape, where iat = iat and clk = clk and u = u] late by simp
  then show ?thesis
    using protect_token_failed [OF bearer_header] by blast
qed

text \<open>
  Claim C8, as amended. With the secret configured and the same at both ends, and a
  token library that reads back every token it writes and writes no empty text and no
  space: a token issued by \<^verbatim>\<open>getSignedJwtToken\<close> at time \<open>iat\<close> and presented as
  \<^verbatim>\<open>Bearer <token>\<close> at a time \<open>clk\<close> before its expiry \<open>iat + life_time e\<close> is verified by
  the middleware to a payload with the issuing user's id, and the identity attached
  is that user's, if the user is still in the collection; from the expiry on the
  verification raises TokenExpiredError and the middleware forwards 401.
\<close>

theorem sign_then_verify:
  assumes secret: "truthy (JWT_SECRET e)"
    and codec: "\<And>j. parse lib (serialise lib j) = Some j"
    and shape: "\<And>j. serialise lib j \<noteq> [] \<and> CHR '' '' \<notin> set (serialise lib j)"
  shows "(clk < iat + life_time e \<longrightarrow>
            jwt_verify lib (bearer_token (Some (''Bearer '' @ getSignedJwtToken lib e iat u)))
              (the (JWT_SECRET e)) clk =
              Inr \<lparr>jp_id = u_id u, jp_iat = iat, jp_exp = iat + life_time e\<rparr> \<and>
            (User_findById us (u_id u) = Some u \<longrightarrow>
               protect lib e us clk (Some (''Bearer '' @ getSignedJwtToken lib e iat u)) =
                 (Some \<lparr>id_id = oid_toString (u_id u), id_role = u_role u, id_name = u_name u,
                        id_email = u_email u\<rparr>, [Continue])))
       \<and> (iat + life_time e \<le> clk \<longrightarrow>
            jwt_verify lib (bearer_token (Some (''Bearer '' @ getSignedJwtToken lib e iat u)))
              (the (JWT_SECRET e)) clk = Inl TokenExpiredError \<and>
            protect lib e us clk (Some (''Bearer '' @ getSignedJwtToken lib e iat u)) =
              (None, [Forward (ErrorResponse ''Not authorized, token failed'' 401)]))"
proof (intro conjI impI)
  assume "clk < iat + life_time e"
  then show "jwt_verify lib (bearer_token (Some (''Bearer '' @ getSignedJwtToken lib e iat u)))
              (the (JWT_SECRET e)) clk =
              Inr \<lparr>jp_id = u_id u, jp_iat = iat, jp_exp = iat + life_time e\<rparr>"
    using verify_presented [OF secret codec shape, where iat = iat and clk = clk and u = u] by simp
next
  assume "clk < iat + life_time e" and "User_findById us (u_id u) = Some u"
  then show "protect lib e us clk (Some (''Bearer '' @ getSignedJwtToken lib e iat u)) =
                 (Some \<lparr>id_id = oid_toString (u_id u), id_role = u_role u, id_name = u_name u,
                        id_email = u_email u\<rparr>, [Continue])"
    using presented_in_time [OF secret codec shape] by blast
next
  assume "iat + life_time e \<le> clk"
  then show "jwt_verify lib (bearer_token (Some (''Bearer '' @ getSignedJwtToken lib e iat u)))
              (the (JWT_SECRET e)) clk = Inl TokenExpiredError"
    using verify_presented [OF secret codec shape, where iat = iat and clk = clk and u = u] by simp
next
  assume "iat + life_time e \<le> clk"
  then show "protect lib e us clk (Some (''Bearer '' @ getSignedJwtToken lib e iat u)) =
              (None, [Forward (ErrorResponse ''Not authorized, token failed'' 401)])"
    using presented_late [OF secret codec shape] by blast
qed

text \<open>The example library is one the hypotheses hold of, and the example secret is set.\<close>

lemma dec_enc_string: "dec_string (enc_string s @ r) = s @ dec_string r"
proof (induction s)
  case Nil
  show ?case by (simp add: enc_string_def)
next
  case (Cons c s)
  have m: "(of_char c :: nat) div 16 < 16"
    using nat_of_char_less_256 [of c] by arith
  have "(65 + (of_char c :: nat) div 16) mod 256 = 65 + (of_char c :: nat) div 16"
    using m by simp
  moreover have "(65 + (of_char c :: nat) mod 16) mod 256 = 65 + (of_char c :: nat) mod 16"
    by simp
  ultimately have "dec_string (enc_char c @ enc_string s @ r) = c # dec_string (enc_string s @ r)"
    by (simp add: enc_char_def)
  with Cons show ?case by (simp add: enc_string_def)
qed

lemma dec_enc_string' : "dec_string (enc_string s) = s"
  using dec_enc_string [of s "[]"] by simp

lemma enc_char_letters: "c' \<in> set (enc_char c) \<Longrightarrow> 65 \<le> (of_char c' :: nat) \<and> (of_char c' :: nat) \<le> 80"
proof -
  assume a: "c' \<in> set (enc_char c)"
  have m: "(of_char c :: nat) div 16 < 16"
    using nat_of_char_less_256 [of c] by arith
  have "(65 + (of_char c :: nat) div 16) mod 256 = 65 + (of_char c :: nat) div 16"
    using m by simp
  moreover have "(65 + (of_char c :: nat) mod 16) mod 256 = 65 + (of_char c :: nat) mod 16"
    by simp
  moreover have "(of_char c :: nat) mod 16 < 16" by simp
  ultimately show ?thesis using a m by (auto simp: enc_char_def)
qed

lemma enc_string_letters:
  "c' \<in> set (enc_string s) \<Longrightarrow> 65 \<le> (of_char c' :: nat) \<and> (of_char c' :: nat) \<le> 80"
  by (auto simp: enc_string_def dest: enc_char_letters)

lemma decimal_digits:
  "c \<in> set (decimal n) \<Longrightarrow> 48 \<le> (of_char c :: nat) \<and> (of_char c :: nat) \<le> 57"
proof (induction n arbitrary: c rule: decimal.induct)
  case (1 n)
  show ?case
  proof (cases "n < 10")
    case True
    with "1.prems" show ?thesis by (simp add: decimal.simps [of n])
  next
    case False
    have "n mod 10 < 10" by simp
    then have "(48 + n mod 10) mod 256 = 48 + n mod 10" by simp
    with False "1.prems" "1.IH" show ?thesis
      by (auto simp: decimal.simps [of n])
  qed
qed

lemma decimal_nonempty: "decimal n \<noteq> []"
  by (simp add: decimal.simps [of n])

lemma undecimal_append: "undecimal (s @ [c]) = 10 * undecimal s + ((of_char c :: nat) - 48)"
  by (simp add: undecimal_def)

lemma undecimal_decimal: "undecimal (decimal n) = n"
proof (induction n rule: decimal.induct)
  case (1 n)
  show ?case
  proof (cases "n < 10")
    case True
    then have "(48 + n) mod 256 = 48 + n" by simp
    with True show ?thesis by (simp add: decimal.simps [of n] undecimal_def)
  next
    case False
    have "n mod 10 < 10" by simp
    then have "(48 + n mod 10) mod 256 = 48 + n mod 10" by simp
    with False "1.IH" show ?thesis
      by (simp add: decimal.simps [of n] undecimal_append)
  qed
qed

lemma dec_enc_int: "dec_int (enc_int i) = i"
proof (cases "i < 0")
  case True
  then show ?thesis by (simp add: enc_int_def dec_int_def undecimal_decimal)
next
  case False
  obtain c r where d: "decimal (nat i) = c # r"
    using decimal_nonempty [of "nat i"] by (cases "decimal (nat i)") auto
  then have "c \<in> set (decimal (nat i))" by simp
  from decimal_digits [OF this] have "c \<noteq> CHR ''-''" by auto
  with False d undecimal_decimal [of "nat i"] show ?thesis
    by (simp add: enc_int_def dec_int_def)
qed

lemma enc_int_chars:
  "c \<in> set (enc_int i) \<Longrightarrow> c = CHR ''-'' \<or> (48 \<le> (of_char c :: nat) \<and> (of_char c :: nat) \<le> 57)"
  by (auto simp: enc_int_def dest: decimal_digits split: if_splits)

lemma split_on_sep:
  "sep \<notin> set a \<Longrightarrow> split_on sep acc (a @ sep # b) = (rev acc @ a) # split_on sep [] b"
  by (induction a arbitrary: acc) auto


lemma demo_codec: "parse demo_lib (serialise demo_lib j) = Some j"
proof -
  let ?a = "enc_string (oid_toString (jp_id (jwt_body j)))"
  let ?b = "enc_int (jp_iat (jwt_body j))"
  let ?c = "enc_int (jp_exp (jwt_body j))"
  let ?d = "enc_string (jwt_signature j)"
  have a: "CHR ''.'' \<notin> set ?a" and d: "CHR ''.'' \<notin> set ?d"
    using enc_string_letters [of "CHR ''.''"] by auto
  have b: "CHR ''.'' \<notin> set ?b" and c: "CHR ''.'' \<notin> set ?c"
    using enc_int_chars [of "CHR ''.''"] by auto
  have "split CHR ''.'' (?a @ CHR ''.'' # ?b @ CHR ''.'' # ?c @ CHR ''.'' # ?d) = [?a, ?b, ?c, ?d]"
    unfolding split_def
    by (simp only: split_on_sep [OF a] split_on_sep [OF b] split_on_sep [OF c]
        split_on_no_sep [OF d] rev.simps append_Nil)
  moreover have "Oid (oid_toString (jp_id (jwt_body j))) = jp_id (jwt_body j)"
    by (cases "jp_id (jwt_body j)") simp
  ultimately show ?thesis
    by (simp add: demo_lib_def demo_serialise_def demo_parse_def dec_enc_string' dec_enc_int)
qed

lemma demo_shape: "serialise demo_lib j \<noteq> [] \<and> CHR '' '' \<notin> set (serialise demo_lib j)"
  using enc_string_letters [of "CHR '' ''"] enc_int_chars [of "CHR '' ''"]
  by (auto simp: demo_lib_def demo_serialise_def)

lemma demo_secret: "truthy (JWT_SECRET demo_env)" "the (JWT_SECRET demo_env) = ''s3cret''"
  by (simp_all add: demo_env_def truthy_def)

lemma demo_life_time: "life_time demo_env = 2592000"
  by (simp add: life_time_def demo_env_def)

lemma demo_users:
  "User_findById [alice, bob] (u_id alice) = Some alice"
  "User_findById [alice, bob] (u_id bob) = Some bob"
  "User_findById [] (u_id alice) = None"
  by (simp_all add: User_findById_def alice_def bob_def)

lemma demo_identities:
  "oid_toString (u_id alice) = ''5f1d7f3e8b3c2a0017a1b2c3''" "u_role alice = RoleUser"
  "u_name alice = ''Alice''" "u_email alice = ''alice@example.com''"
  "u_id alice = Oid ''5f1d7f3e8b3c2a0017a1b2c3''"
  "oid_toString (u_id bob) = ''5f1d7f3e8b3c2a0017a1b2c5''" "u_role bob = RoleUser"
  "u_name bob = ''Bob''" "u_email bob = ''bob@example.com''"
  "u_id bob = Oid ''5f1d7f3e8b3c2a0017a1b2c5''"
  by (simp_all add: alice_def bob_def)

text \<open>
  The tokens of \<open>alice\<close> and of \<open>bob\<close>, issued at time 1000 for thirty days, are each
  verified to their own user at time 2000, and refused at time 2593000.
\<close>

theorem sign_then_verify_witness:
  "protect demo_lib demo_env [alice, bob] 2000
     (Some (''Bearer '' @ getSignedJwtToken demo_lib demo_env 1000 alice)) =
     (Some \<lparr>id_id = ''5f1d7f3e8b3c2a0017a1b2c3'', id_role = RoleUser, id_name = ''Alice'',
            id_email = ''alice@example.com''\<rparr>, [Continue])
   \<and> protect demo_lib demo_env [alice, bob] 2000
     (Some (''Bearer '' @ getSignedJwtToken demo_lib demo_env 1000 bob)) =
     (Some \<lparr>id_id = ''5f1d7f3e8b3c2a0017a1b2c5'', id_role = RoleUser, id_name = ''Bob'',
            id_email = ''bob@example.com''\<rparr>, [Continue])
   \<and> jwt_verify demo_lib
         (bearer_token (Some (''Bearer '' @ getSignedJwtToken demo_lib demo_env 1000 bob)))
         ''s3cret'' 2000 =
       Inr \<lparr>jp_id = Oid ''5f1d7f3e8b3c2a0017a1b2c5'', jp_iat = 1000, jp_exp = 2593000\<rparr>
   \<and> protect demo_lib demo_env [alice, bob] 2593000
     (Some (''Bearer '' @ getSignedJwtToken demo_lib demo_env 1000 bob)) =
     (None, [Forward (ErrorResponse ''Not authorized, token failed'' 401)])"
proof -
  have early: "(2000::int) < 1000 + life_time demo_env" by (simp add: demo_life_time)
  have late: "1000 + life_time demo_env \<le> (2593000::int)" by (simp add: demo_life_time)
  have l: "1000 + life_time demo_env = 2593000" by (simp add: demo_life_time)
  note a = sign_then_verify [OF demo_secret(1) demo_codec demo_shape,
      where iat = 1000 and clk = 2000 and u = alice and us = "[alice, bob]"]
  note b = sign_then_verify [OF demo_secret(1) demo_codec demo_shape,
      where iat = 1000 and clk = 2000 and u = bob and us = "[alice, bob]"]
  note c = sign_then_verify [OF demo_secret(1) demo_codec demo_shape,
      where iat = 1000 and clk = 2593000 and u = bob and us = "[alice, bob]"]
  from a early demo_users(1) have 1: "protect demo_lib demo_env [alice, bob] 2000
     (Some (''Bearer '' @ getSignedJwtToken demo_lib demo_env 1000 alice)) =
     (Some \<lparr>id_id = ''5f1d7f3e8b3c2a0017a1b2c3'', id_role = RoleUser, id_name = ''Alice'',
            id_email = ''alice@example.com''\<rparr>, [Continue])"
    unfolding demo_identities oid_toString.simps by blast
  from b early demo_users(2) have 2: "protect demo_lib demo_env [alice, bob] 2000
     (Some (''Bearer '' @ getSignedJwtToken demo_lib demo_env 1000 bob)) =
     (Some \<lparr>id_id = ''5f1d7f3e8b3c2a0017a1b2c5'', id_role = RoleUser, id_name = ''Bob'',
            id_email = ''bob@example.com''\<rparr>, [Continue])"
    unfolding demo_identities oid_toString.simps by blast
  from b early have 3: "jwt_verify demo_lib
         (bearer_token (Some (''Bearer '' @ getSignedJwtToken demo_lib demo_env 1000 bob)))
         ''s3cret'' 2000 =
       Inr \<lparr>jp_id = Oid ''5f1d7f3e8b3c2a0017a1b2c5'', jp_iat = 1000, jp_exp = 2593000\<rparr>"
    unfolding demo_identities oid_toString.simps demo_secret(2) l by blast
  from c late have 4: "protect demo_lib demo_env [alice, bob] 2593000
     (Some (''Bearer '' @ getSignedJwtToken demo_lib demo_env 1000 bob)) =
     (None, [Forward (ErrorResponse ''Not authorized, token failed'' 401)])"
    by blast
  from 1 2 3 4 show ?thesis by (intro conjI)
qed

text \<open>
  Without the bound on the time the round trip fails: the token issued to \<open>alice\<close> at
  time 1000 with the default life time of 2592000 seconds is refused at time 2593000.
\<close>

theorem expired_token_counterexample:
  "truthy (JWT_SECRET demo_env)
   \<and> jwt_verify demo_lib
        (bearer_token (Some (''Bearer '' @ getSignedJwtToken demo_lib demo_env 1000 alice)))
        (the (JWT_SECRET demo_env)) 2593000 = Inl TokenExpiredError
   \<and> protect demo_lib demo_env [alice] 2593000
        (Some (''Bearer '' @ getSignedJwtToken demo_lib demo_env 1000 alice)) =
      (None, [Forward (ErrorResponse ''Not authorized, token failed'' 401)])"
proof -
  have late: "1000 + life_time demo_env \<le> (2593000::int)" by (simp add: demo_life_time)
  have "jwt_verify demo_lib
        (bearer_token (Some (''Bearer '' @ getSignedJwtToken demo_lib demo_env 1000 alice)))
        (the (JWT_SECRET demo_env)) 2593000 = Inl TokenExpiredError"
    using verify_presented [OF demo_secret(1) demo_codec demo_shape, where iat = 1000 and clk = 2593000 and u = alice] late
    by simp
  with presented_late [OF demo_secret(1) demo_codec demo_shape late, where us = "[alice]" and u = alice]
    demo_secret(1)
  show ?thesis by (intro conjI)
qed

lemma forged_token_refused:
  "jwt_verify demo_lib
     (bearer_token (Some (''Bearer '' @ jwt_sign demo_lib (u_id alice) ''other'' 2592000 1000)))
     (the (JWT_SECRET demo_env)) 2000 = Inl JsonWebTokenError"
proof -
  let ?j = "issue demo_lib (u_id alice) ''other'' 2592000 1000"
  have "bearer_token (Some (''Bearer '' @ serialise demo_lib ?j)) = Some (serialise demo_lib ?j)"
    using demo_shape [of ?j] bearer_token_of_header by blast
  moreover have "jwt_signature ?j \<noteq> hmac demo_lib ''s3cret'' (jwt_body ?j)"
    by (simp add: issue_def Let_def demo_lib_def demo_hmac_def)
  ultimately show ?thesis
    using demo_codec [of ?j] demo_shape [of ?j]
    by (simp add: jwt_sign_def jwt_verify_def truthy_def demo_secret(2))
qed

text \<open>
  The outcomes of \<^verbatim>\<open>protect\<close> on example requests: no header, a text that is no
  token, a token signed with another secret, a user that is gone, and a good token.
\<close>

theorem protect_outcomes_witness:
  "protect demo_lib demo_env [alice, bob] 2000 None =
     (None, [Forward (ErrorResponse ''Not authorized, no token'' 401)])
   \<and> protect demo_lib demo_env [alice, bob] 2000 (Some ''Bearer not-a-token'') =
     (None, [Forward (ErrorResponse ''Not authorized, token failed'' 401)])
   \<and> protect demo_lib demo_env [alice, bob] 2000
       (Some (''Bearer '' @ jwt_sign demo_lib (u_id alice) ''other'' 2592000 1000)) =
     (None, [Forward (ErrorResponse ''Not authorized, token failed'' 401)])
   \<and> protect demo_lib demo_env [] 2000
       (Some (''Bearer '' @ getSignedJwtToken demo_lib demo_env 1000 alice)) =
     (None, [Forward (ErrorResponse ''User not found'' 404)])
   \<and> protect demo_lib demo_env [alice, bob] 2000
       (Some (''Bearer '' @ getSignedJwtToken demo_lib demo_env 1000 alice)) =
     (Some \<lparr>id_id = ''5f1d7f3e8b3c2a0017a1b2c3'', id_role = RoleUser, id_name = ''Alice'',
            id_email = ''alice@example.com''\<rparr>, [Continue])"
proof -
  let ?good = "Some (''Bearer '' @ getSignedJwtToken demo_lib demo_env 1000 alice)"
  have nb: "\<not> bearer None" by (simp add: bearer_def)
  have b1: "bearer (Some ''Bearer not-a-token'')" by (simp add: bearer_def startsWith_def)
  have b2: "bearer ?good" by (rule bearer_header)
  have v1: "jwt_verify demo_lib (bearer_token (Some ''Bearer not-a-token''))
              (the (JWT_SECRET demo_env)) 2000 = Inl JsonWebTokenError"
    by (simp add: bearer_token_def split_def nth_opt_def jwt_verify_def truthy_def demo_lib_def
        demo_parse_def)
  have early: "\<not> 1000 + life_time demo_env \<le> (2000::int)" by (simp add: demo_life_time)
  have v2: "jwt_verify demo_lib (bearer_token ?good) (the (JWT_SECRET demo_env)) 2000 =
              Inr \<lparr>jp_id = u_id alice, jp_iat = 1000, jp_exp = 1000 + life_time demo_env\<rparr>"
    using verify_presented [OF demo_secret(1) demo_codec demo_shape, where iat = 1000 and clk = 2000 and u = alice] early
    by simp
  have f0: "User_findById [] (jp_id \<lparr>jp_id = u_id alice, jp_iat = 1000,
              jp_exp = 1000 + life_time demo_env\<rparr>) = None"
    by (simp add: demo_users)
  have f1: "User_findById [alice, bob] (jp_id \<lparr>jp_id = u_id alice, jp_iat = 1000,
              jp_exp = 1000 + life_time demo_env\<rparr>) = Some alice"
    by (simp add: demo_users)
  note t = protect_outcomes [where a = None and lib = demo_lib and e = demo_env
      and us = "[alice, bob]" and now = 2000]
  note u = protect_outcomes [where a = "Some ''Bearer not-a-token''" and lib = demo_lib
      and e = demo_env and us = "[alice, bob]" and now = 2000]
  note x = protect_outcomes [where a = "Some (''Bearer '' @ jwt_sign demo_lib (u_id alice) ''other'' 2592000 1000)"
      and lib = demo_lib and e = demo_env and us = "[alice, bob]" and now = 2000]
  have 5: "protect demo_lib demo_env [alice, bob] 2000
       (Some (''Bearer '' @ jwt_sign demo_lib (u_id alice) ''other'' 2592000 1000)) =
     (None, [Forward (ErrorResponse ''Not authorized, token failed'' 401)])"
    using x bearer_header forged_token_refused by blast
  note w0 = protect_outcomes [where a = ?good and lib = demo_lib and e = demo_env
      and us = "[]" and now = 2000]
  note w1 = protect_outcomes [where a = ?good and lib = demo_lib and e = demo_env
      and us = "[alice, bob]" and now = 2000]
  have 1: "protect demo_lib demo_env [alice, bob] 2000 None =
     (None, [Forward (ErrorResponse ''Not authorized, no token'' 401)])"
    using t nb by blast
  have 2: "protect demo_lib demo_env [alice, bob] 2000 (Some ''Bearer not-a-token'') =
     (None, [Forward (ErrorResponse ''Not authorized, token failed'' 401)])"
    using u b1 v1 by blast
  have 3: "protect demo_lib demo_env [] 2000 ?good =
     (None, [Forward (ErrorResponse ''User not found'' 404)])"
    using w0 b2 demo_secret(1) v2 f0 by (auto split: option.splits)
  have 4: "protect demo_lib demo_env [alice, bob] 2000 ?good =
     (Some \<lparr>id_id = oid_toString (u_id alice), id_role = u_role alice, id_name = u_name alice,
            id_email = u_email alice\<rparr>, [Continue])"
    using w1 b2 demo_secret(1) v2 f1 by (auto split: option.splits)
  from 1 2 5 3 4 show ?thesis unfolding demo_identities oid_toString.simps by (intro conjI)
qed

section \<open>Properties of the error-normalisation middleware\<close>

lemma AppError_sel [simp]:
  "ae_statusCode (AppError m c) = c" "ae_message (AppError m c) = m"
  by (simp_all add: AppError_def)

lemma n_message_normalise: "n_message (normalise err) = client_message err"
  by (simp add: normalise_def client_message_def)

lemma n_message_nonempty: "n_message (normalise err) \<noteq> []"
  by (cases err) (auto simp: normalise_def rd_def truthy_def split: option.splits)

lemma n_statusCode_nonzero: "n_statusCode (normalise err) \<noteq> 0"
  by (auto simp: normalise_def split: option.splits status_prop.splits)

lemma n_statusCode_absent: "no_status_code err \<Longrightarrow> n_statusCode (normalise err) = 500"
  by (cases err) (auto simp: normalise_def no_status_code_def rd_def isAppError_def)

lemma productionError_unrecognised:
  "unrecognised err \<Longrightarrow>
   productionError err error =
     AppError (n_message error) (if n_statusCode error \<noteq> 0 then n_statusCode error else 500)"
  by (auto simp: productionError_def unrecognised_def Let_def)

lemma response_keys: "map fst (res_json (fst (errorHandler e err))) = [''success'', ''error'']"
  by (simp add: errorHandler_def Let_def)

text \<open>
  Claim C4, as amended. In production, an error of no recognised category and without
  a status code is answered with status 500 and with the error's own message (the
  fixed text \<^verbatim>\<open>An unknown error occurred\<close> only when it has none), and nothing
  is logged. In every environment the body of the answer has the two keys
  \<^verbatim>\<open>success\<close> and \<^verbatim>\<open>error\<close> and so no stack trace.
\<close>

theorem production_unrecognised_error:
  assumes "NODE_ENV e = Some ''production''" and "unrecognised err" and "no_status_code err"
  shows "errorHandler e err = (json_error 500 (client_message err), None)
       \<and> map fst (res_json (fst (errorHandler e' err'))) = [''success'', ''error'']"
proof -
  have p: "productionError err (normalise err) = AppError (client_message err) 500"
    using assms(2,3)
    by (simp add: productionError_unrecognised n_statusCode_absent n_message_normalise)
  have m: "client_message err \<noteq> []"
    using n_message_nonempty [of err] by (simp add: n_message_normalise)
  have "errorHandler e err = (json_error 500 (client_message err), None)"
    using assms(1) p m by (simp add: errorHandler_def Let_def json_error_def)
  then show ?thesis by (simp add: response_keys)
qed

lemma demo_production: "NODE_ENV demo_env = Some ''production''"
  by (simp add: demo_env_def)

theorem production_unrecognised_error_witness:
  "errorHandler demo_env (as_thrown (TypeError ''Cannot read properties of null (reading _id)'')) =
     (\<lparr>res_status = 500,
       res_json = [(''success'', JBool False),
                   (''error'', JString ''Cannot read properties of null (reading _id)'')]\<rparr>, None)"
proof -
  let ?err = "as_thrown (TypeError ''Cannot read properties of null (reading _id)'')"
  have u: "unrecognised ?err" by (simp add: unrecognised_def rd_def plain_error_def)
  have n: "no_status_code ?err" by (simp add: no_status_code_def plain_error_def)
  have c: "client_message ?err = ''Cannot read properties of null (reading _id)''"
    by (simp add: client_message_def rd_def plain_error_def truthy_def)
  from production_unrecognised_error [OF demo_production u n] c
  show ?thesis by (simp add: json_error_def)
qed

text \<open>
  The message is not generic: a connection failure raised by the driver reaches the
  client of a production server word for word.
\<close>

theorem internal_message_counterexample:
  "unrecognised (ErrorObject (plain_error ''Error'' ''connect ECONNREFUSED 10.0.0.5:27017''))
   \<and> no_status_code (ErrorObject (plain_error ''Error'' ''connect ECONNREFUSED 10.0.0.5:27017''))
   \<and> NODE_ENV demo_env = Some ''production''
   \<and> fst (errorHandler demo_env
            (ErrorObject (plain_error ''Error'' ''connect ECONNREFUSED 10.0.0.5:27017''))) =
       \<lparr>res_status = 500,
        res_json = [(''success'', JBool False),
                    (''error'', JString ''connect ECONNREFUSED 10.0.0.5:27017'')]\<rparr>"
  by (simp add: unrecognised_def no_status_code_def rd_def plain_error_def demo_env_def
      errorHandler_def Let_def normalise_def truthy_def isAppError_def productionError_def)

lemma productionError_duplicate:
  "rd e_code err = Some 11000 \<Longrightarrow> rd (\<lambda>x. Some (e_class x)) err \<noteq> Some MongooseCastError \<Longrightarrow>
   productionError err error =
     AppError (duplicate_message (case rd e_keyValue err of
                                    None \<Rightarrow> ''unknown''
                                  | Some kvs \<Rightarrow> tmpl (map_option snd (nth_opt kvs 0)))) 400"
  by (simp add: productionError_def Let_def handleDuplicateFieldsDB_def duplicate_message_def)

lemma first_value:
  "(case Some [(k, v)] of None \<Rightarrow> ''unknown'' | Some kvs \<Rightarrow> tmpl (map_option snd (nth_opt kvs 0))) = v"
  by (simp add: nth_opt_def tmpl_def)

lemma errorHandler_duplicate:
  assumes "NODE_ENV e = Some ''production''" and "rd e_code err = Some 11000"
    and "rd (\<lambda>x. Some (e_class x)) err \<noteq> Some MongooseCastError"
  shows "errorHandler e err =
           (json_error 400 (duplicate_message
              (case rd e_keyValue err of
                 None \<Rightarrow> ''unknown''
               | Some kvs \<Rightarrow> tmpl (map_option snd (nth_opt kvs 0)))), None)"
  using assms
  by (simp add: errorHandler_def Let_def json_error_def productionError_duplicate)
     (simp add: duplicate_message_def)

text \<open>Outside production the handler sends the normalised error as it is.\<close>

lemma errorHandler_not_production:
  assumes "NODE_ENV e \<noteq> Some ''production''"
  shows "fst (errorHandler e err) = json_error (own_status err) (client_message err)"
proof -
  have s: "n_statusCode (normalise err) = own_status err"
    by (cases err)
       (auto simp: normalise_def own_status_def isAppError_def rd_def split: status_prop.splits)
  have m: "client_message err \<noteq> []"
    using n_message_nonempty [of err] by (simp add: n_message_normalise)
  have z: "own_status err \<noteq> 0"
    using n_statusCode_nonzero [of err] by (simp add: s)
  show ?thesis
    using assms m z
    by (simp add: errorHandler_def Let_def json_error_def s n_message_normalise)
qed

lemma own_status_absent: "no_status_code err \<Longrightarrow> own_status err = 500"
  by (cases err) (auto simp: own_status_def no_status_code_def)

lemma register_duplicate:
  assumes "u_email u \<in> set (map u_email us)"
  shows "register u us =
           (Inl (MongoServerError 11000 [(''email'', u_email u)]
                (''E11000 duplicate key error collection: users index: email_1 dup key: { email: '' @
                    u_email u @ '' }'')), us)"
  using assms by (simp add: register_def)

lemma duplicate_thrown:
  "rd e_code (as_thrown (MongoServerError 11000 kv m)) = Some 11000"
  "rd (\<lambda>x. Some (e_class x)) (as_thrown (MongoServerError 11000 kv m)) \<noteq> Some MongooseCastError"
  "rd e_keyValue (as_thrown (MongoServerError 11000 kv m)) = Some kv"
  "no_status_code (as_thrown (MongoServerError 11000 kv m))"
  "client_message (as_thrown (MongoServerError 11000 kv m)) = (if m = [] then ''An unknown error occurred'' else m)"
  by (simp_all add: rd_def plain_error_def no_status_code_def client_message_def truthy_def)

text \<open>
  Claim C5, as amended. In production, a duplicate-key error (code 11000, not a cast
  error) is answered with status 400 and the message
  \<^verbatim>\<open>Duplicate field value: <value>. Please use another value!\<close>, where the value is
  the first value of \<^verbatim>\<open>keyValue\<close> (\<^verbatim>\<open>unknown\<close> without \<^verbatim>\<open>keyValue\<close>). Outside production
  every error is answered as it is: with its own status (500 when it has none) and
  its own message. Registering a user whose email is taken leaves the collection as
  it was and raises a duplicate-key error, which is answered in production with status
  400 and the email in the message, and outside production with status 500 and the
  database's message.
\<close>

theorem duplicate_key_responses:
  "(NODE_ENV e = Some ''production'' \<and> rd e_code err = Some 11000 \<and>
      rd (\<lambda>x. Some (e_class x)) err \<noteq> Some MongooseCastError \<longrightarrow>
        errorHandler e err =
          (json_error 400 (duplicate_message
             (case rd e_keyValue err of
                None \<Rightarrow> ''unknown''
              | Some kvs \<Rightarrow> tmpl (map_option snd (nth_opt kvs 0)))), None))
   \<and> (NODE_ENV e \<noteq> Some ''production'' \<longrightarrow>
        fst (errorHandler e err) = json_error (own_status err) (client_message err) \<and>
        (no_status_code err \<longrightarrow> res_status (fst (errorHandler e err)) = 500))
   \<and> (u_email u \<in> set (map u_email us) \<longrightarrow>
        snd (register u us) = us \<and>
        (\<exists>dup. fst (register u us) = Inl dup \<and>
           (NODE_ENV e = Some ''production'' \<longrightarrow>
              errorHandler e (as_thrown dup) =
                (json_error 400 (duplicate_message (u_email u)), None)) \<and>
           (NODE_ENV e \<noteq> Some ''production'' \<longrightarrow>
              fst (errorHandler e (as_thrown dup)) =
                json_error 500
                  (''E11000 duplicate key error collection: users index: email_1 dup key: { email: '' @
                    u_email u @ '' }''))))"
proof (intro conjI impI)
  assume "NODE_ENV e = Some ''production'' \<and> rd e_code err = Some 11000 \<and>
      rd (\<lambda>x. Some (e_class x)) err \<noteq> Some MongooseCastError"
  then show "errorHandler e err =
              (json_error 400 (duplicate_message
                 (case rd e_keyValue err of
                    None \<Rightarrow> ''unknown''
                  | Some kvs \<Rightarrow> tmpl (map_option snd (nth_opt kvs 0)))), None)"
    using errorHandler_duplicate by blast
next
  assume "NODE_ENV e \<noteq> Some ''production''"
  then show "fst (errorHandler e err) = json_error (own_status err) (client_message err)"
    by (rule errorHandler_not_production)
next
  assume "NODE_ENV e \<noteq> Some ''production''" and "no_status_code err"
  then show "res_status (fst (errorHandler e err)) = 500"
    by (simp add: errorHandler_not_production own_status_absent json_error_def)
next
  assume "u_email u \<in> set (map u_email us)"
  then show "snd (register u us) = us" by (simp add: register_duplicate)
next
  assume d: "u_email u \<in> set (map u_email us)"
  let ?m = "''E11000 duplicate key error collection: users index: email_1 dup key: { email: '' @
                    u_email u @ '' }''"
  let ?dup = "MongoServerError 11000 [(''email'', u_email u)] ?m"
  have 1: "fst (register u us) = Inl ?dup" using d by (simp add: register_duplicate)
  have 2: "NODE_ENV e = Some ''production'' \<longrightarrow>
             errorHandler e (as_thrown ?dup) = (json_error 400 (duplicate_message (u_email u)), None)"
  proof
    assume p: "NODE_ENV e = Some ''production''"
    from errorHandler_duplicate [OF p duplicate_thrown(1) duplicate_thrown(2)]
    show "errorHandler e (as_thrown ?dup) = (json_error 400 (duplicate_message (u_email u)), None)"
      by (simp only: duplicate_thrown(3) first_value)
  qed
  have 3: "NODE_ENV e \<noteq> Some ''production'' \<longrightarrow>
             fst (errorHandler e (as_thrown ?dup)) = json_error 500 ?m"
  proof
    assume p: "NODE_ENV e \<noteq> Some ''production''"
    have "client_message (as_thrown ?dup) = ?m"
      by (simp only: duplicate_thrown(5)) simp
    moreover have "own_status (as_thrown ?dup) = 500"
      using duplicate_thrown(4) by (rule own_status_absent)
    ultimately show "fst (errorHandler e (as_thrown ?dup)) = json_error 500 ?m"
      using errorHandler_not_production [OF p, of "as_thrown ?dup"] by (simp only:)
  qed
  from 1 2 3 show "\<exists>dup. fst (register u us) = Inl dup \<and>
           (NODE_ENV e = Some ''production'' \<longrightarrow>
              errorHandler e (as_thrown dup) =
                (json_error 400 (duplicate_message (u_email u)), None)) \<and>
           (NODE_ENV e \<noteq> Some ''production'' \<longrightarrow>
              fst (errorHandler e (as_thrown dup)) = json_error 500 ?m)"
    by blast
qed

text \<open>
  \<open>alice\<close> registers a second time: the collection stays, and the error is answered
  with 400 and her email in production, with 500 in development.
\<close>

theorem duplicate_key_responses_witness:
  "register alice [alice] =
     (Inl (MongoServerError 11000 [(''email'', ''alice@example.com'')]
        ''E11000 duplicate key error collection: users index: email_1 dup key: { email: alice@example.com }''),
      [alice])
   \<and> errorHandler demo_env
        (as_thrown (MongoServerError 11000 [(''email'', ''alice@example.com'')]
        ''E11000 duplicate key error collection: users index: email_1 dup key: { email: alice@example.com }'')) =
     (\<lparr>res_status = 400,
       res_json = [(''success'', JBool False),
         (''error'', JString ''Duplicate field value: alice@example.com. Please use another value!'')]\<rparr>,
      None)
   \<and> fst (errorHandler (demo_env\<lparr>NODE_ENV := Some ''development''\<rparr>)
        (as_thrown (MongoServerError 11000 [(''email'', ''alice@example.com'')]
        ''E11000 duplicate key error collection: users index: email_1 dup key: { email: alice@example.com }''))) =
     \<lparr>res_status = 500,
      res_json = [(''success'', JBool False),
        (''error'', JString ''E11000 duplicate key error collection: users index: email_1 dup key: { email: alice@example.com }'')]\<rparr>"
proof -
  let ?m = "''E11000 duplicate key error collection: users index: email_1 dup key: { email: alice@example.com }''"
  let ?dup = "MongoServerError 11000 [(''email'', ''alice@example.com'')] ?m"
  let ?dev = "demo_env\<lparr>NODE_ENV := Some ''development''\<rparr>"
  have i: "register alice [alice] = (Inl ?dup, [alice])"
    by (simp add: register_def) (simp add: alice_def)
  have dev: "NODE_ENV ?dev \<noteq> Some ''production''" by simp
  have cm: "client_message (as_thrown ?dup) = ?m"
    by (simp only: duplicate_thrown(5)) simp
  have os: "own_status (as_thrown ?dup) = 500"
    using duplicate_thrown(4) by (rule own_status_absent)
  note t = duplicate_key_responses [where e = demo_env and err = "as_thrown ?dup"]
  note d = duplicate_key_responses [where e = ?dev and err = "as_thrown ?dup"]
  from t demo_production duplicate_thrown(1,2)
  have "errorHandler demo_env (as_thrown ?dup) =
              (json_error 400 (duplicate_message
                 (case rd e_keyValue (as_thrown ?dup) of
                    None \<Rightarrow> ''unknown''
                  | Some kvs \<Rightarrow> tmpl (map_option snd (nth_opt kvs 0)))), None)"
    by blast
  then have "errorHandler demo_env (as_thrown ?dup) =
     (json_error 400 (duplicate_message ''alice@example.com''), None)"
    by (simp only: duplicate_thrown(3) first_value)
  then have 1: "errorHandler demo_env (as_thrown ?dup) =
     (\<lparr>res_status = 400,
       res_json = [(''success'', JBool False),
         (''error'', JString ''Duplicate field value: alice@example.com. Please use another value!'')]\<rparr>,
      None)"
    by (simp only: json_error_def duplicate_message_def) simp
  from d dev have "fst (errorHandler ?dev (as_thrown ?dup)) =
      json_error (own_status (as_thrown ?dup)) (client_message (as_thrown ?dup))"
    by blast
  then have 2: "fst (errorHandler ?dev (as_thrown ?dup)) =
     \<lparr>res_status = 500, res_json = [(''success'', JBool False), (''error'', JString ?m)]\<rparr>"
    by (simp only: cm os json_error_def)
  from i 1 2 show ?thesis by (intro conjI)
qed

text \<open>
  Outside production the error is not rewritten: in development the duplicate email
  is answered with status 500 and the driver's message.
\<close>

theorem duplicate_key_development_counterexample:
  "fst (errorHandler (demo_env\<lparr>NODE_ENV := Some ''development''\<rparr>)
          (as_thrown (projl (fst (register alice [alice]))))) =
     \<lparr>res_status = 500,
      res_json = [(''success'', JBool False),
        (''error'', JString ''E11000 duplicate key error collection: users index: email_1 dup key: { email: alice@example.com }'')]\<rparr>"
  by (simp add: register_def)
     (simp add: alice_def rd_def plain_error_def demo_env_def
      errorHandler_def Let_def normalise_def truthy_def isAppError_def)

section \<open>Properties of the meter controller\<close>

text \<open>
  What the three handlers do with a reading they have found. A requester who is
  neither the owner nor an admin gets an error from each of them and the state stays
  as it was; the owner and every admin pass the check of the update and delete
  handlers, and that of the read handler when the owner of the reading resolves.
\<close>

lemma populate_owner:
  "pr_user (populate us r) = Some owner \<Longrightarrow> pu_id owner = mr_user r"
  by (auto simp: populate_def find_Some_iff)

lemma populate_doc [simp]: "pr_doc (populate us r) = r"
  by (simp add: populate_def)

lemma get_denied:
  assumes "MeterReading_findById (readings d) ident = Inr (Some r)"
    and "oid_toString (mr_user r) \<noteq> id_id u" and "id_role u \<noteq> RoleAdmin"
  shows "getMeterReading d u ident =
           (Inl (if pr_user (populate (users d) r) = None
                 then TypeError ''Cannot read properties of null (reading _id)''
                 else not_authorized u ''access''), d)"
proof (cases "pr_user (populate (users d) r)")
  case None
  with assms(1) show ?thesis by (simp add: getMeterReading_def Let_def)
next
  case (Some owner)
  with populate_owner [OF Some] assms show ?thesis
    by (simp add: getMeterReading_def Let_def)
qed

lemma update_denied:
  assumes "MeterReading_findById (readings d) ident = Inr (Some r)"
    and "oid_toString (mr_user r) \<noteq> id_id u" and "id_role u \<noteq> RoleAdmin"
  shows "updateMeterReading d u now ident body = (Inl (not_authorized u ''update''), d)"
  using assms by (simp add: updateMeterReading_def)

lemma delete_denied:
  assumes "MeterReading_findById (readings d) ident = Inr (Some r)"
    and "oid_toString (mr_user r) \<noteq> id_id u" and "id_role u \<noteq> RoleAdmin"
  shows "deleteMeterReading d u ident = (Inl (not_authorized u ''delete''), d)"
  using assms by (simp add: deleteMeterReading_def)

lemma get_allowed:
  assumes "MeterReading_findById (readings d) ident = Inr (Some r)"
    and "oid_toString (mr_user r) = id_id u \<or> id_role u = RoleAdmin"
    and "pr_user (populate (users d) r) \<noteq> None"
  shows "getMeterReading d u ident = (Inr (populate (users d) r), d)"
proof -
  from assms(3) obtain owner where o: "pr_user (populate (users d) r) = Some owner" by blast
  with populate_owner [OF o] assms(1,2) show ?thesis
    by (auto simp: getMeterReading_def Let_def)
qed

lemma update_allowed:
  assumes "MeterReading_findById (readings d) ident = Inr (Some r)"
    and "oid_toString (mr_user r) = id_id u \<or> id_role u = RoleAdmin"
  shows "updateMeterReading d u now ident body =
           (case MeterReading_findByIdAndUpdate now ident
                   (if truthy (b_status body) \<and> id_role u = RoleAdmin
                    then body\<lparr>b_approvedBy := Some (id_id u), b_approvedAt := Some now\<rparr>
                    else body) (readings d) of
              Inl e \<Rightarrow> (Inl e, d)
            | Inr (updated, rs') \<Rightarrow> (Inr updated, d\<lparr>readings := rs'\<rparr>))"
  using assms by (auto simp: updateMeterReading_def Let_def)

lemma delete_allowed:
  assumes "MeterReading_findById (readings d) ident = Inr (Some r)"
    and "oid_toString (mr_user r) = id_id u \<or> id_role u = RoleAdmin"
  shows "deleteMeterReading d u ident =
           (Inr (),
            d\<lparr>uploads := (if photo r \<noteq> [] \<and> photo r \<in> set (uploads d)
                           then removeAll (photo r) (uploads d) else uploads d),
              readings := MeterReading_deleteOne (mr_id r) (readings d)\<rparr>)"
  using assms by (auto simp: deleteMeterReading_def Let_def)

lemma findByIdAndUpdate_result:
  assumes "MeterReading_findByIdAndUpdate now ident b rs = Inr (Some r', rs')"
  shows "\<exists>i new_user new_approver r.
           castObjectId ident = Some i \<and>
           cast_opt_id ''user'' (b_user b) = Inr new_user \<and>
           cast_opt_id ''approvedBy'' (b_approvedBy b) = Inr new_approver \<and>
           validate_update (apply_setters b) = [] \<and>
           find (\<lambda>r. mr_id r = i) rs = Some r \<and>
           r' = set_paths (apply_setters b) new_user new_approver now r"
  using assms
  by (auto simp: MeterReading_findByIdAndUpdate_def Let_def apply_setters_def
      split: option.splits sum.splits if_splits)

lemma validate_update_status:
  "validate_update b = [] \<Longrightarrow> b_status b = Some s \<Longrightarrow> s \<in> {''pending'', ''approved'', ''rejected''}"
  by (auto simp: validate_update_def opt_check_def check_status_def split: if_splits)


lemma set_paths_fields:
  "status (set_paths b nu na now r) = (case b_status b of None \<Rightarrow> status r | Some s \<Rightarrow> s)"
  "approvedBy (set_paths b nu na now r) = (case na of None \<Rightarrow> approvedBy r | Some a \<Rightarrow> Some a)"
  "approvedAt (set_paths b nu na now r) = (case b_approvedAt b of None \<Rightarrow> approvedAt r | Some t \<Rightarrow> Some t)"
  by (simp_all add: set_paths_def)

lemma apply_setters_fields [simp]:
  "b_status (apply_setters b) = b_status b"
  "b_approvedAt (apply_setters b) = b_approvedAt b"
  "b_approvedBy (apply_setters b) = b_approvedBy b"
  "b_user (apply_setters b) = b_user b"
  by (simp_all add: apply_setters_def)

lemma findById_find:
  "MeterReading_findById rs ident = Inr (Some r) \<Longrightarrow>
   \<exists>i. castObjectId ident = Some i \<and> find (\<lambda>r. mr_id r = i) rs = Some r"
  by (auto simp: MeterReading_findById_def split: option.splits)

lemma cast_opt_id_Some:
  "cast_opt_id p (Some s) = Inr a \<Longrightarrow> a = castObjectId s \<and> a \<noteq> None"
  by (cases "castObjectId s") (auto simp: cast_opt_id_def)

lemma cast_opt_id_Inr:
  "cast_opt_id p v = Inr a \<Longrightarrow> a = (case v of None \<Rightarrow> None | Some s \<Rightarrow> castObjectId s)"
  by (auto simp: cast_opt_id_def split: option.splits)

lemma find_replaced:
  "P y \<Longrightarrow> find P (takeWhile (\<lambda>x. \<not> P x) xs @ y # ys) = Some y"
  by (induction xs) auto

lemma mr_id_set_paths [simp]: "mr_id (set_paths b nu na now r) = mr_id r"
  by (simp add: set_paths_def)

lemma findByIdAndUpdate_stored:
  assumes "MeterReading_findByIdAndUpdate now ident b rs = Inr (Some r', rs')"
    and "MeterReading_findById rs ident = Inr (Some r)"
  shows "rs' = takeWhile (\<lambda>x. mr_id x \<noteq> mr_id r) rs @ r' # tl (dropWhile (\<lambda>x. mr_id x \<noteq> mr_id r) rs)"
    and "MeterReading_findById rs' ident = Inr (Some r')"
    and "mr_id r' = mr_id r"
proof -
  from findById_find [OF assms(2)] obtain i where
    i: "castObjectId ident = Some i" and f: "find (\<lambda>r. mr_id r = i) rs = Some r"
    by blast
  from f have ri: "mr_id r = i" by (auto simp: find_Some_iff)
  from assms(1) i f obtain nu na where
    r': "r' = set_paths (apply_setters b) nu na now r"
    and rs': "rs' = takeWhile (\<lambda>x. mr_id x \<noteq> i) rs @ r' # tl (dropWhile (\<lambda>x. mr_id x \<noteq> i) rs)"
    by (auto simp: MeterReading_findByIdAndUpdate_def Let_def split: option.splits sum.splits if_splits)
  show 1: "mr_id r' = mr_id r" using r' by simp
  show "rs' = takeWhile (\<lambda>x. mr_id x \<noteq> mr_id r) rs @ r' # tl (dropWhile (\<lambda>x. mr_id x \<noteq> mr_id r) rs)"
    using rs' ri by simp
  have "find (\<lambda>x. mr_id x = i) rs' = Some r'"
    unfolding rs' using find_replaced [of "\<lambda>x. mr_id x = i" r' rs] 1 ri by simp
  then show "MeterReading_findById rs' ident = Inr (Some r')"
    using i by (simp add: MeterReading_findById_def)
qed

text \<open>
  Claim C2, as amended. Of an update that succeeds on a reading \<open>r\<close>: the document
  \<open>r'\<close> sent back is the one stored in place of \<open>r\<close> (it is what the collection holds
  under the identifier afterwards, and nothing else of the state changes). When an
  admin's body carries a status, the stored reading has that status, the admin's id
  as \<open>approvedBy\<close> and the current time as \<open>approvedAt\<close>; when the requester is no
  admin, the requester is the owner, nothing is stamped, and the stored reading's
  status, approver and approval time are those of the body where it carries them and
  the old ones where it does not.
\<close>

theorem update_status_rules:
  assumes found: "MeterReading_findById (readings d) ident = Inr (Some r)"
    and ok: "updateMeterReading d u now ident body = (Inr (Some r'), d')"
  shows "d' = d\<lparr>readings := takeWhile (\<lambda>x. mr_id x \<noteq> mr_id r) (readings d) @ r' #
                              tl (dropWhile (\<lambda>x. mr_id x \<noteq> mr_id r) (readings d))\<rparr>
       \<and> MeterReading_findById (readings d') ident = Inr (Some r')
       \<and> (id_role u = RoleAdmin \<and> b_status body \<noteq> None \<longrightarrow>
            status r' = the (b_status body) \<and> approvedBy r' = castObjectId (id_id u) \<and>
            approvedBy r' \<noteq> None \<and> approvedAt r' = Some now)
       \<and> (id_role u \<noteq> RoleAdmin \<longrightarrow>
            oid_toString (mr_user r) = id_id u \<and>
            status r' = (case b_status body of None \<Rightarrow> status r | Some s \<Rightarrow> s) \<and>
            approvedBy r' = (case b_approvedBy body of None \<Rightarrow> approvedBy r | Some a \<Rightarrow> castObjectId a) \<and>
            approvedAt r' = (case b_approvedAt body of None \<Rightarrow> approvedAt r | Some t \<Rightarrow> Some t))"
proof -
  let ?body = "if truthy (b_status body) \<and> id_role u = RoleAdmin
               then body\<lparr>b_approvedBy := Some (id_id u), b_approvedAt := Some now\<rparr> else body"
  have pass: "oid_toString (mr_user r) = id_id u \<or> id_role u = RoleAdmin"
    using found ok by (auto simp: updateMeterReading_def split: if_splits)
  from update_allowed [OF found pass, of now body] ok
  obtain rs' where upd: "MeterReading_findByIdAndUpdate now ident ?body (readings d) = Inr (Some r', rs')"
    and d': "d' = d\<lparr>readings := rs'\<rparr>"
    by (auto split: sum.splits prod.splits)
  note stored = findByIdAndUpdate_stored [OF upd found]
  from findByIdAndUpdate_result [OF upd] findById_find [OF found]
  obtain nu na where
    ca: "cast_opt_id ''approvedBy'' (b_approvedBy ?body) = Inr na"
    and va: "validate_update (apply_setters ?body) = []"
    and r': "r' = set_paths (apply_setters ?body) nu na now r"
    by auto
  show ?thesis
  proof (intro conjI impI)
    show "d' = d\<lparr>readings := takeWhile (\<lambda>x. mr_id x \<noteq> mr_id r) (readings d) @ r' #
                              tl (dropWhile (\<lambda>x. mr_id x \<noteq> mr_id r) (readings d))\<rparr>"
      using d' stored(1) by simp
    show "MeterReading_findById (readings d') ident = Inr (Some r')"
      using d' stored(2) by simp
  next
    assume a: "id_role u = RoleAdmin \<and> b_status body \<noteq> None"
    then obtain s where s: "b_status body = Some s" by blast
    have bs: "b_status (apply_setters ?body) = Some s" using s by simp
    from validate_update_status [OF va bs] have "s \<noteq> []" by auto
    with s have t: "truthy (b_status body)" by (simp add: truthy_def)
    with a have b: "?body = body\<lparr>b_approvedBy := Some (id_id u), b_approvedAt := Some now\<rparr>"
      by simp
    from ca b have na: "na = castObjectId (id_id u) \<and> na \<noteq> None"
      by (simp add: cast_opt_id_Some)
    show "status r' = the (b_status body)" using r' s b by (simp add: set_paths_fields)
    show "approvedBy r' = castObjectId (id_id u)" using r' na by (auto simp: set_paths_fields)
    show "approvedBy r' \<noteq> None" using r' na by (auto simp: set_paths_fields)
    show "approvedAt r' = Some now" using r' b by (simp add: set_paths_fields)
  next
    assume n: "id_role u \<noteq> RoleAdmin"
    then have b: "?body = body" by simp
    show "oid_toString (mr_user r) = id_id u" using pass n by blast
    show "status r' = (case b_status body of None \<Rightarrow> status r | Some s \<Rightarrow> s)"
      using r' b by (simp add: set_paths_fields)
    from ca b have "na = (case b_approvedBy body of None \<Rightarrow> None | Some s \<Rightarrow> castObjectId s)"
      by (simp add: cast_opt_id_Inr)
    moreover from ca b have "\<And>s. b_approvedBy body = Some s \<Longrightarrow> na \<noteq> None"
      by (auto dest: cast_opt_id_Some)
    ultimately show "approvedBy r' = (case b_approvedBy body of None \<Rightarrow> approvedBy r | Some a \<Rightarrow> castObjectId a)"
      using r' by (auto simp: set_paths_fields split: option.splits)
    show "approvedAt r' = (case b_approvedAt body of None \<Rightarrow> approvedAt r | Some t \<Rightarrow> Some t)"
      using r' b by (simp add: set_paths_fields)
  qed
qed

lemmas eval_update =
  updateMeterReading_def MeterReading_findById_def castObjectId_def is_hex_char_def lower_hex_def
  demo_db_def reading1_def reading2_def as_identity_def root_def alice_def bob_def Let_def
  MeterReading_findByIdAndUpdate_def apply_setters_def cast_opt_id_def validate_update_def
  opt_check_def check_status_def set_paths_def truthy_def empty_body_def

lemma root_approves:
  "updateMeterReading demo_db (as_identity root) 200 ''64b000000000000000000001''
     (empty_body\<lparr>b_status := Some ''approved''\<rparr>) =
   (Inr (Some (reading1\<lparr>status := ''approved'', approvedBy := Some (Oid ''5f1d7f3e8b3c2a0017a1b2c4''),
                        approvedAt := Some 200, updatedAt := 200\<rparr>)),
    demo_db\<lparr>readings := [reading1\<lparr>status := ''approved'',
                                    approvedBy := Some (Oid ''5f1d7f3e8b3c2a0017a1b2c4''),
                                    approvedAt := Some 200, updatedAt := 200\<rparr>, reading2]\<rparr>)"
  by (simp add: eval_update)

lemma alice_approves:
  "updateMeterReading demo_db (as_identity alice) 200 ''64b000000000000000000001''
     (empty_body\<lparr>b_status := Some ''approved''\<rparr>) =
   (Inr (Some (reading1\<lparr>status := ''approved'', updatedAt := 200\<rparr>)),
    demo_db\<lparr>readings := [reading1\<lparr>status := ''approved'', updatedAt := 200\<rparr>, reading2]\<rparr>)"
  by (simp add: eval_update)

lemma find_reading1:
  "MeterReading_findById (readings demo_db) ''64b000000000000000000001'' = Inr (Some reading1)"
  by (simp add: MeterReading_findById_def castObjectId_def is_hex_char_def lower_hex_def
      demo_db_def reading1_def reading2_def)


text \<open>
  The admin \<open>root\<close> approves the reading of \<open>alice\<close>, and the stamped reading is the one
  stored; so does \<open>alice\<close>, and the reading stored is approved without a stamp.
\<close>

theorem update_status_rules_witness:
  "updateMeterReading demo_db (as_identity root) 200 ''64b000000000000000000001''
     (empty_body\<lparr>b_status := Some ''approved''\<rparr>) =
   (Inr (Some (reading1\<lparr>status := ''approved'', approvedBy := Some (Oid ''5f1d7f3e8b3c2a0017a1b2c4''),
                        approvedAt := Some 200, updatedAt := 200\<rparr>)),
    demo_db\<lparr>readings := [reading1\<lparr>status := ''approved'',
                                    approvedBy := Some (Oid ''5f1d7f3e8b3c2a0017a1b2c4''),
                                    approvedAt := Some 200, updatedAt := 200\<rparr>, reading2]\<rparr>)
   \<and> MeterReading_findById
        (readings (snd (updateMeterReading demo_db (as_identity root) 200 ''64b000000000000000000001''
                          (empty_body\<lparr>b_status := Some ''approved''\<rparr>))))
        ''64b000000000000000000001'' =
       Inr (Some (reading1\<lparr>status := ''approved'', approvedBy := Some (Oid ''5f1d7f3e8b3c2a0017a1b2c4''),
                        approvedAt := Some 200, updatedAt := 200\<rparr>))
   \<and> approvedBy (reading1\<lparr>status := ''approved'', approvedBy := Some (Oid ''5f1d7f3e8b3c2a0017a1b2c4''),
                        approvedAt := Some 200, updatedAt := 200\<rparr>) =
       castObjectId (id_id (as_identity root))
   \<and> approvedAt (reading1\<lparr>status := ''approved'', approvedBy := Some (Oid ''5f1d7f3e8b3c2a0017a1b2c4''),
                        approvedAt := Some 200, updatedAt := 200\<rparr>) = Some 200
   \<and> status (reading1\<lparr>status := ''approved'', approvedBy := Some (Oid ''5f1d7f3e8b3c2a0017a1b2c4''),
                        approvedAt := Some 200, updatedAt := 200\<rparr>) = ''approved''
   \<and> MeterReading_findById
        (readings (snd (updateMeterReading demo_db (as_identity alice) 200 ''64b000000000000000000001''
                          (empty_body\<lparr>b_status := Some ''approved''\<rparr>))))
        ''64b000000000000000000001'' =
       Inr (Some (reading1\<lparr>status := ''approved'', updatedAt := 200\<rparr>))
   \<and> oid_toString (mr_user reading1) = id_id (as_identity alice)
   \<and> approvedBy (reading1\<lparr>status := ''approved'', updatedAt := 200\<rparr>) = approvedBy reading1
   \<and> approvedAt (reading1\<lparr>status := ''approved'', updatedAt := 200\<rparr>) = approvedAt reading1"
proof -
  have a: "id_role (as_identity root) = RoleAdmin" by (simp add: as_identity_def root_def)
  have n: "id_role (as_identity alice) \<noteq> RoleAdmin" by (simp add: as_identity_def alice_def)
  have s: "b_status (empty_body\<lparr>b_status := Some ''approved''\<rparr>) \<noteq> None" by simp
  have t: "the (b_status (empty_body\<lparr>b_status := Some ''approved''\<rparr>)) = ''approved''" by simp
  have e: "b_approvedBy (empty_body\<lparr>b_status := Some ''approved''\<rparr>) = None"
    "b_approvedAt (empty_body\<lparr>b_status := Some ''approved''\<rparr>) = None"
    by (simp_all add: empty_body_def)
  note w = update_status_rules [OF find_reading1 root_approves]
  note v = update_status_rules [OF find_reading1 alice_approves]
  from w have 1: "MeterReading_findById
        (readings (snd (updateMeterReading demo_db (as_identity root) 200 ''64b000000000000000000001''
                          (empty_body\<lparr>b_status := Some ''approved''\<rparr>))))
        ''64b000000000000000000001'' =
       Inr (Some (reading1\<lparr>status := ''approved'', approvedBy := Some (Oid ''5f1d7f3e8b3c2a0017a1b2c4''),
                        approvedAt := Some 200, updatedAt := 200\<rparr>))"
    unfolding root_approves snd_conv by blast
  from v have 2: "MeterReading_findById
        (readings (snd (updateMeterReading demo_db (as_identity alice) 200 ''64b000000000000000000001''
                          (empty_body\<lparr>b_status := Some ''approved''\<rparr>))))
        ''64b000000000000000000001'' =
       Inr (Some (reading1\<lparr>status := ''approved'', updatedAt := 200\<rparr>))"
    unfolding alice_approves snd_conv by blast
  from v n e have 3: "oid_toString (mr_user reading1) = id_id (as_identity alice)
     \<and> approvedBy (reading1\<lparr>status := ''approved'', updatedAt := 200\<rparr>) = approvedBy reading1
     \<and> approvedAt (reading1\<lparr>status := ''approved'', updatedAt := 200\<rparr>) = approvedAt reading1"
    by (simp only: option.case simp_thms)
  from w a s t have 4: "approvedBy (reading1\<lparr>status := ''approved'', approvedBy := Some (Oid ''5f1d7f3e8b3c2a0017a1b2c4''),
                        approvedAt := Some 200, updatedAt := 200\<rparr>) =
       castObjectId (id_id (as_identity root))
   \<and> approvedAt (reading1\<lparr>status := ''approved'', approvedBy := Some (Oid ''5f1d7f3e8b3c2a0017a1b2c4''),
                        approvedAt := Some 200, updatedAt := 200\<rparr>) = Some 200
   \<and> status (reading1\<lparr>status := ''approved'', approvedBy := Some (Oid ''5f1d7f3e8b3c2a0017a1b2c4''),
                        approvedAt := Some 200, updatedAt := 200\<rparr>) = ''approved''"
    by (simp only: simp_thms)
  from root_approves 1 2 3 4 show ?thesis by (simp only: simp_thms)
qed

text \<open>A reading's owner, who is no admin, approves her own reading.\<close>

theorem owner_sets_status_counterexample:
  "id_role (as_identity alice) = RoleUser
   \<and> status reading1 = ''pending''
   \<and> MeterReading_findById (readings demo_db) ''64b000000000000000000001'' = Inr (Some reading1)
   \<and> updateMeterReading demo_db (as_identity alice) 200 ''64b000000000000000000001''
        (empty_body\<lparr>b_status := Some ''approved''\<rparr>) =
      (Inr (Some (reading1\<lparr>status := ''approved'', updatedAt := 200\<rparr>)),
       demo_db\<lparr>readings := [reading1\<lparr>status := ''approved'', updatedAt := 200\<rparr>, reading2]\<rparr>)
   \<and> status (reading1\<lparr>status := ''approved'', updatedAt := 200\<rparr>) \<noteq> status reading1"
  using alice_approves find_reading1
  by (simp add: as_identity_def alice_def) (simp add: reading1_def)

lemma orphan_db_eq:
  "orphan_db =
     demo_db\<lparr>readings := [reading1\<lparr>mr_user := Oid ''ffffffffffffffffffffffff'', updatedAt := 200\<rparr>,
                           reading2]\<rparr>"
  by (simp add: orphan_db_def eval_update)

text \<open>
  Claim C1. An admin must pass the ownership check of the read, update and delete
  handlers on every reading. On a reading whose owner is in no collection the update
  and delete handlers let the admin \<open>root\<close> through, but the read handler forwards a
  TypeError: it reads \<^verbatim>\<open>_id\<close> of the populated owner, which is null.
\<close>

theorem admin_get_unresolved_owner:
  "id_role (as_identity root) = RoleAdmin
   \<and> MeterReading_findById (readings orphan_db) ''64b000000000000000000001'' =
       Inr (Some (reading1\<lparr>mr_user := Oid ''ffffffffffffffffffffffff'', updatedAt := 200\<rparr>))
   \<and> getMeterReading orphan_db (as_identity root) ''64b000000000000000000001'' =
       (Inl (TypeError ''Cannot read properties of null (reading _id)''), orphan_db)
   \<and> fst (updateMeterReading orphan_db (as_identity root) 300 ''64b000000000000000000001'' empty_body) =
       Inr (Some (reading1\<lparr>mr_user := Oid ''ffffffffffffffffffffffff'', updatedAt := 300\<rparr>))
   \<and> fst (deleteMeterReading orphan_db (as_identity root) ''64b000000000000000000001'') = Inr ()"
  by (simp add: orphan_db_eq)
     (simp add: eval_update getMeterReading_def deleteMeterReading_def populate_def)




lemma page_subset: "sort_skip_limit skip limit ms = Inr found \<Longrightarrow> set found \<subseteq> set ms"
proof -
  assume "sort_skip_limit skip limit ms = Inr found"
  then have f: "found = take (nat \<bar>limit\<bar>) (drop (nat skip) (rev (sort_key createdAt ms)))"
    by (auto simp: sort_skip_limit_def split: if_splits)
  have "set found \<subseteq> set (drop (nat skip) (rev (sort_key createdAt ms)))"
    unfolding f by (rule set_take_subset)
  also have "\<dots> \<subseteq> set (rev (sort_key createdAt ms))" by (rule set_drop_subset)
  also have "\<dots> = set ms" by simp
  finally show ?thesis .
qed






























end
